theory Spec2Isabelle
  imports Main
begin

section \<open>Errors and the coordination store\<close>

text \<open>
  Every exception of the TypeScript source is a value of \<open>error\<close>; a function that can
  throw returns \<open>error + 'a\<close> with \<open>Inl\<close> for the exception.
\<close>

datatype error =
    WRONGTYPE
  | AxiosError string "string option"
  | Error string
  | TypeError
  | SyntaxError

text \<open>
  The Redis client used by \<open>services/redis-service.ts\<close>. A key holds a string, a hash or a
  set, together with the time at which it expires (seconds, \<open>None\<close> for no expiry). A
  command applied to a key of another kind is answered by Redis with the error
  \<open>WRONGTYPE\<close>, which the client throws. Time is passed explicitly as \<open>now\<close>.
  Failures of the connection to Redis are not part of the model.
\<close>

datatype rvalue =
    RString string
  | RHash "(string \<times> string) list"
  | RSet "string list"

type_synonym redis = "string \<rightharpoonup> rvalue \<times> nat option"

definition live :: "redis \<Rightarrow> nat \<Rightarrow> string \<Rightarrow> rvalue option" where
  "live st now k =
     (case st k of
        None \<Rightarrow> None
      | Some (v, None) \<Rightarrow> Some v
      | Some (v, Some e) \<Rightarrow> (if now < e then Some v else None))"

definition get :: "redis \<Rightarrow> nat \<Rightarrow> string \<Rightarrow> error + string option" where
  "get st now k =
     (case live st now k of
        None \<Rightarrow> Inr None
      | Some (RString s) \<Rightarrow> Inr (Some s)
      | Some _ \<Rightarrow> Inl WRONGTYPE)"

definition setEx :: "redis \<Rightarrow> nat \<Rightarrow> string \<Rightarrow> nat \<Rightarrow> string \<Rightarrow> redis" where
  "setEx st now k seconds v = st(k \<mapsto> (RString v, Some (now + seconds)))"

definition hGetAll :: "redis \<Rightarrow> nat \<Rightarrow> string \<Rightarrow> error + (string \<times> string) list" where
  "hGetAll st now k =
     (case live st now k of
        None \<Rightarrow> Inr []
      | Some (RHash h) \<Rightarrow> Inr h
      | Some _ \<Rightarrow> Inl WRONGTYPE)"

definition sMembers :: "redis \<Rightarrow> nat \<Rightarrow> string \<Rightarrow> error + string list" where
  "sMembers st now k =
     (case live st now k of
        None \<Rightarrow> Inr []
      | Some (RSet xs) \<Rightarrow> Inr xs
      | Some _ \<Rightarrow> Inl WRONGTYPE)"

text \<open>
  \<open>SADD\<close> adds a member to the set at a key (creating it) and keeps the key's expiry;
  the members of a set are kept without repetition. \<open>EXPIRE\<close> sets the expiry of a live
  key.
\<close>

definition sAdd :: "redis \<Rightarrow> nat \<Rightarrow> string \<Rightarrow> string \<Rightarrow> error + redis" where
  "sAdd st now k m =
     (case live st now k of
        None \<Rightarrow> Inr (st(k \<mapsto> (RSet [m], None)))
      | Some (RSet xs) \<Rightarrow>
          Inr (st(k \<mapsto> (RSet (if m \<in> set xs then xs else xs @ [m]),
                          (case st k of Some (_, e) \<Rightarrow> e | None \<Rightarrow> None))))
      | Some _ \<Rightarrow> Inl WRONGTYPE)"

definition expire :: "redis \<Rightarrow> nat \<Rightarrow> string \<Rightarrow> nat \<Rightarrow> redis" where
  "expire st now k seconds =
     (case live st now k of
        None \<Rightarrow> st
      | Some v \<Rightarrow> st(k \<mapsto> (v, Some (now + seconds))))"

text \<open>The invariant of the store: every set is held without repeated members.\<close>

definition sets_distinct :: "redis \<Rightarrow> bool" where
  "sets_distinct st = (\<forall>k xs e. st k = Some (RSet xs, e) \<longrightarrow> distinct xs)"


section \<open>Communication policy\<close>

text \<open>
  \<open>services/communication-service.ts\<close>. The role labels are the strings of the
  TypeScript union \<open>'staff' | 'director' | 'guardian' | 'student'\<close>; at run time they are
  compared with \<open>===\<close>.
\<close>

definition role_labels :: "string set" where
  "role_labels = {''staff'', ''director'', ''guardian'', ''student''}"

record CommunicationPermissions =
  canMessage :: bool
  allowedRecipients :: "string list"
  errorMessage :: "string option"

definition checkCommunicationPermissions ::
  "string \<Rightarrow> string \<Rightarrow> string \<Rightarrow> string \<Rightarrow> CommunicationPermissions" where
  "checkCommunicationPermissions senderId senderType recipientId recipientType =
     (if (senderType = ''director'' \<and> recipientType = ''student'') \<or>
         (senderType = ''student'' \<and> recipientType = ''director'')
      then \<lparr>canMessage = False, allowedRecipients = [],
            errorMessage = Some ''Communication between Director and Student is not allowed''\<rparr>
      else \<lparr>canMessage = True, allowedRecipients = [recipientId], errorMessage = None\<rparr>)"


section \<open>External collaborators\<close>

text \<open>
  Everything the code reaches over the network is a parameter of the model: the HTTP
  client \<open>axios\<close>, the document store behind \<open>DatabaseService.saveMessage\<close>, the
  identifier generator \<open>uuidv7\<close>, the e-mail format check of the schema library (which
  gives the message of its error, or nothing for an accepted text), the e-mail sender
  \<open>sendEmail\<close> and \<open>JSON.parse\<close> on the payload text of a task.
  A call either returns or throws.
\<close>

record janus_user =
  uid :: "string option"
  name :: "string option"
  email :: "string option"
  role :: "string option"

text \<open>
  The body of an HTTP response, with the fields the code reads: \<open>success\<close>, \<open>error\<close>,
  \<open>data.user\<close>, \<open>data.tenantId\<close> and \<open>emails\<close>. A response with an empty body has the
  body \<open>None\<close>; every field read from it is \<open>undefined\<close>.
\<close>

record body =
  data_success :: bool
  data_error :: "string option"
  data_user :: "janus_user option"
  data_tenantId :: "string option"
  data_emails :: "string list option"

record http_response =
  status :: nat
  data :: "body option"

record http_request =
  http_method :: string
  url :: string
  headers :: "(string \<times> string) list"
  timeout :: "nat option"

record config =
  janusGatewayUrl :: string
  janusApiUrl :: string
  athenaApiUrl :: string
  apolloApiUrl :: string
  zeusApiUrl :: string
  hestiaApiUrl :: string

record IMessage =
  id' :: string
  senderId :: string
  senderType :: string
  recipientIds :: "string list"
  tenantId :: string
  messageType :: string
  content :: string
  subject :: string
  mediaUrls :: "string list option"
  msg_status :: string
  sentAt :: nat

text \<open>
  The payload of a task after \<open>JSON.parse\<close> (\<open>models/tasks.ts\<close>), with the fields the
  handlers read, and the parameters of \<open>sendEmail\<close> (\<open>utils/email-wrapper\<close>).
\<close>

datatype recipient = Single string | Multiple "string list"

record payload =
  recipientEmail :: recipient
  p_subject :: string
  p_body :: string
  attachments :: "string list option"
  emailClient :: "string option"
  targetService :: string
  p_endpoint :: string
  p_data :: string
  p_method :: "string option"
  p_timeout :: "nat option"
  title :: string
  targetGroup :: string

record email_params =
  to :: "string list"
  e_subject :: string
  html :: string
  e_attachments :: "string list option"

record env =
  config :: config
  axios :: "http_request \<Rightarrow> error + http_response"
  firestore_add :: "IMessage \<Rightarrow> error + string"
  uuidv7 :: "nat \<Rightarrow> string"
  email_issue :: "string \<Rightarrow> string option"
  sendEmail :: "email_params \<Rightarrow> string \<Rightarrow> error + unit"
  JSON_parse :: "string \<Rightarrow> error + payload"

text \<open>JavaScript's \<open>a || b\<close> on an optional string: the empty string is falsy.\<close>

definition or_else :: "string option \<Rightarrow> string \<Rightarrow> string" where
  "or_else a b = (case a of None \<Rightarrow> b | Some s \<Rightarrow> if s = [] then b else s)"

text \<open>
  A field of a string-valued object; an absent field reads as \<open>undefined\<close>, written as
  the empty string.
\<close>

definition field :: "(string \<times> string) list \<Rightarrow> string \<Rightarrow> string" where
  "field h k = (case map_of h k of None \<Rightarrow> [] | Some v \<Rightarrow> v)"

fun string_of_nat :: "nat \<Rightarrow> string" where
  "string_of_nat n =
     (if n < 10 then [char_of (48 + n)]
      else string_of_nat (n div 10) @ [char_of (48 + n mod 10)])"

declare string_of_nat.simps [simp del]


section \<open>Validation service\<close>

text \<open>\<open>services/validation-service.ts\<close>.\<close>

record ServiceValidationResult =
  sv_isValid :: bool
  sv_error :: "string option"
  sv_tenantId :: "string option"

record IdentityValidationResult =
  isValid :: bool
  iv_error :: "string option"
  iv_userType :: "string option"
  iv_tenantId :: "string option"

text \<open>
  What a run of the gateway or of the validation service does to the outside, in order:
  a call of \<open>DatabaseService.saveMessage\<close> with a message, the return of that write, a
  publish on a channel, a frame sent back on the socket, a call of the
  service-validation gateway.
\<close>

datatype reply =
    message_sent string
  | group_message_sent
  | error_frame string

datatype event =
    SaveMessage IMessage
  | Persist IMessage
  | Publish string IMessage
  | Send reply
  | GatewayCall string string

record state =
  store :: redis
  trace :: "event list"
  uuids :: nat

definition emit :: "event \<Rightarrow> state \<Rightarrow> state" where
  "emit e st = st\<lparr>trace := trace st @ [e]\<rparr>"

definition service_key :: "string \<Rightarrow> string \<Rightarrow> string" where
  "service_key serviceId tenant = ''service:'' @ serviceId @ '':'' @ tenant"

text \<open>
  The requests the validation service sends, and when an answer counts as usable: the
  service gateway confirms with status 200; the identity service confirms a token with
  status 200, \<open>success\<close> and a user; a role lookup is usable when the answer has a status
  in 200..299, \<open>success\<close>, and a user whose role is one of the four labels.
\<close>

definition validate_request :: "env \<Rightarrow> string \<Rightarrow> string \<Rightarrow> http_request" where
  "validate_request ev serviceId tenant =
     \<lparr>http_method = ''POST'', url = janusGatewayUrl (config ev) @ ''/auth/validate'',
      headers = [(''x-service-id'', serviceId), (''x-tenant-id'', tenant)], timeout = None\<rparr>"

definition verify_request :: "env \<Rightarrow> string \<Rightarrow> http_request" where
  "verify_request ev token =
     \<lparr>http_method = ''POST'', url = janusApiUrl (config ev) @ ''/api/v1/auth/verify'',
      headers = [(''Authorization'', ''Bearer '' @ token)], timeout = None\<rparr>"

definition janus_request :: "env \<Rightarrow> string \<Rightarrow> string option \<Rightarrow> string \<Rightarrow> http_request" where
  "janus_request ev endpoint token meth =
     \<lparr>http_method = meth, url = janusApiUrl (config ev) @ endpoint,
      headers = [(''Content-Type'', ''application/json'')] @
                (case token of
                   None \<Rightarrow> []
                 | Some t \<Rightarrow> if t = [] then [] else [(''Authorization'', ''Bearer '' @ t)]),
      timeout = None\<rparr>"

definition gateway_confirms :: "error + http_response \<Rightarrow> bool" where
  "gateway_confirms r = (case r of Inl e \<Rightarrow> False | Inr response \<Rightarrow> status response = 200)"

definition verify_usable :: "error + http_response \<Rightarrow> bool" where
  "verify_usable r =
     (case r of
        Inl e \<Rightarrow> False
      | Inr response \<Rightarrow>
          status response = 200 \<and>
          (case data response of
             None \<Rightarrow> False
           | Some b \<Rightarrow> data_success b \<and> data_user b \<noteq> None))"

definition lookup_usable :: "error + http_response \<Rightarrow> bool" where
  "lookup_usable r =
     (case r of
        Inl e \<Rightarrow> False
      | Inr response \<Rightarrow>
          200 \<le> status response \<and> status response < 300 \<and>
          (case data response of
             None \<Rightarrow> False
           | Some b \<Rightarrow>
               data_success b \<and>
               (case data_user b of
                  None \<Rightarrow> False
                | Some u \<Rightarrow>
                    (case role u of
                       None \<Rightarrow> False
                     | Some x \<Rightarrow> x \<in> set [''staff'', ''director'', ''guardian'', ''student'']))))"

text \<open>
  \<open>validateServiceViaGateway\<close>. The read of the cache is outside the \<open>try\<close>, so its
  error leaves the function. \<open>axios\<close> throws on a status outside 200..299.
\<close>

definition validateServiceViaGateway ::
  "env \<Rightarrow> nat \<Rightarrow> string \<Rightarrow> string \<Rightarrow> state \<Rightarrow> (error + ServiceValidationResult) \<times> state" where
  "validateServiceViaGateway ev now serviceId tenant st =
     (case get (store st) now (service_key serviceId tenant) of
        Inl e \<Rightarrow> (Inl e, st)
      | Inr cachedResult \<Rightarrow>
          if cachedResult = Some ''valid'' then
            (Inr \<lparr>sv_isValid = True, sv_error = None, sv_tenantId = Some tenant\<rparr>, st)
          else if cachedResult = Some ''invalid'' then
            (Inr \<lparr>sv_isValid = False, sv_error = Some ''Service authentication failed'',
                  sv_tenantId = None\<rparr>, st)
          else
            (let st1 = emit (GatewayCall serviceId tenant) st in
             case axios ev (validate_request ev serviceId tenant) of
               Inr response \<Rightarrow>
                 if status response = 200 then
                   (Inr \<lparr>sv_isValid = True, sv_error = None, sv_tenantId = Some tenant\<rparr>,
                    st1\<lparr>store := setEx (store st1) now (service_key serviceId tenant) 600 ''valid''\<rparr>)
                 else
                   (Inr \<lparr>sv_isValid = False, sv_error = Some ''Service authentication failed'',
                         sv_tenantId = None\<rparr>,
                    st1\<lparr>store := setEx (store st1) now (service_key serviceId tenant) 300 ''invalid''\<rparr>)
             | Inl err \<Rightarrow>
                 (Inr \<lparr>sv_isValid = False,
                       sv_error = Some (case err of
                                          AxiosError m r \<Rightarrow> m
                                        | _ \<Rightarrow> ''Internal server error during validation''),
                       sv_tenantId = None\<rparr>,
                  st1\<lparr>store := setEx (store st1) now (service_key serviceId tenant) 300 ''invalid''\<rparr>)))"

text \<open>
  \<open>validateUserIdentity\<close>. On a response with an empty body \<open>response.data.success\<close> is
  \<open>undefined\<close>, so the first check rejects it. Of the schema check only the e-mail
  format can fail on string fields; the message of the schema library's error follows
  "User data validation failed: ".
\<close>

definition validateUserIdentity :: "env \<Rightarrow> string \<Rightarrow> string \<Rightarrow> IdentityValidationResult" where
  "validateUserIdentity ev userId token =
     (case axios ev (verify_request ev token) of
        Inl (AxiosError m r) \<Rightarrow>
          \<lparr>isValid = False, iv_error = Some (or_else r m), iv_userType = None, iv_tenantId = None\<rparr>
      | Inl _ \<Rightarrow>
          \<lparr>isValid = False, iv_error = Some ''Identity validation failed'',
           iv_userType = None, iv_tenantId = None\<rparr>
      | Inr response \<Rightarrow>
          (case data response of
             None \<Rightarrow>
               \<lparr>isValid = False, iv_error = Some ''Token validation failed'',
                iv_userType = None, iv_tenantId = None\<rparr>
           | Some b \<Rightarrow>
               if status response \<noteq> 200 \<or> \<not> data_success b then
                 \<lparr>isValid = False, iv_error = Some (or_else (data_error b) ''Token validation failed''),
                  iv_userType = None, iv_tenantId = None\<rparr>
               else
                 (case data_user b of
                    None \<Rightarrow>
                      \<lparr>isValid = False,
                       iv_error = Some ''Invalid user data from authentication service'',
                       iv_userType = None, iv_tenantId = None\<rparr>
                  | Some userData \<Rightarrow>
                      (case email_issue ev (or_else (email userData) []) of
                         Some issue \<Rightarrow>
                           \<lparr>isValid = False,
                            iv_error = Some (''User data validation failed: '' @ issue),
                            iv_userType = None, iv_tenantId = None\<rparr>
                       | None \<Rightarrow>
                           \<lparr>isValid = True, iv_error = None, iv_userType = role userData,
                            iv_tenantId = data_tenantId b\<rparr>))))"

record api_result =
  api_success :: bool
  api_data :: "body option"
  api_error :: "string option"

text \<open>\<open>callJanusApi\<close>: every failure of the call is caught and returned as a value.\<close>

definition callJanusApi ::
  "env \<Rightarrow> string \<Rightarrow> string option \<Rightarrow> string \<Rightarrow> api_result" where
  "callJanusApi ev endpoint token meth =
     (case axios ev (janus_request ev endpoint token meth) of
           Inr response \<Rightarrow>
             if 200 \<le> status response \<and> status response < 300 \<and>
                (case data response of None \<Rightarrow> False | Some b \<Rightarrow> data_success b)
             then \<lparr>api_success = True, api_data = data response, api_error = None\<rparr>
             else \<lparr>api_success = False, api_data = None,
                   api_error = Some (or_else (case data response of None \<Rightarrow> None
                                                | Some b \<Rightarrow> data_error b)
                                             (''HTTP '' @ string_of_nat (status response)))\<rparr>
         | Inl (AxiosError m r) \<Rightarrow>
             \<lparr>api_success = False, api_data = None,
              api_error = Some (or_else r (or_else (Some m) ''API call failed''))\<rparr>
         | Inl _ \<Rightarrow>
             \<lparr>api_success = False, api_data = None, api_error = Some ''API call failed''\<rparr>)"


section \<open>Sessions and rooms in the coordination store\<close>

text \<open>\<open>services/redis-service.ts\<close>.\<close>

definition validateSession :: "redis \<Rightarrow> nat \<Rightarrow> string \<Rightarrow> string \<Rightarrow> error + bool" where
  "validateSession st now sessionId userId =
     (case get st now (''session:'' @ sessionId) of
        Inl e \<Rightarrow> Inl e
      | Inr storedUserId \<Rightarrow> Inr (storedUserId = Some userId))"

definition storeSession :: "string \<Rightarrow> string \<Rightarrow> string \<Rightarrow> nat \<Rightarrow> nat \<Rightarrow> redis \<Rightarrow> redis" where
  "storeSession sessionId userId tenant expiry now st =
     (let st1 = setEx st now (''session:'' @ sessionId) expiry userId;
          st2 = setEx st1 now (''session:tenant:'' @ sessionId) expiry tenant
      in setEx st2 now (''user:session:'' @ userId) expiry sessionId)"

definition publishToRoom :: "string \<Rightarrow> IMessage \<Rightarrow> state \<Rightarrow> state" where
  "publishToRoom room message st = emit (Publish room message) st"

definition addUserToRoom :: "string \<Rightarrow> string \<Rightarrow> nat \<Rightarrow> nat \<Rightarrow> redis \<Rightarrow> error + redis" where
  "addUserToRoom userId roomId expiry now st =
     (case sAdd st now (''room:'' @ roomId) userId of
        Inl e \<Rightarrow> Inl e
      | Inr st1 \<Rightarrow>
          Inr (setEx (expire st1 now (''room:'' @ roomId) expiry) now
                 (''user:room:'' @ userId) expiry roomId))"

definition getUsersInRoom :: "redis \<Rightarrow> nat \<Rightarrow> string \<Rightarrow> error + string list" where
  "getUsersInRoom st now roomId = sMembers st now (''room:'' @ roomId)"


section \<open>Communication service\<close>

record send_result =
  success :: bool
  messageId :: "string option"
  send_error :: "string option"

text \<open>\<open>mediaUrls && mediaUrls.length > 0 ? 'media' : t\<close>.\<close>

definition media_or :: "string list option \<Rightarrow> string \<Rightarrow> string" where
  "media_or urls t =
     (case urls of None \<Rightarrow> t | Some us \<Rightarrow> if length us > 0 then ''media'' else t)"

definition fresh_id :: "env \<Rightarrow> string \<Rightarrow> state \<Rightarrow> string \<times> state" where
  "fresh_id ev prefix st = (prefix @ uuidv7 ev (uuids st), st\<lparr>uuids := uuids st + 1\<rparr>)"

text \<open>
  \<open>DatabaseService.saveMessage\<close> followed by \<open>publishToRoom\<close>, the body of the \<open>try\<close>
  blocks of the send operations: the message is handed to the document store, and the
  publish is reached only when the write returned.
\<close>

definition save_then_publish ::
  "env \<Rightarrow> IMessage \<Rightarrow> string \<Rightarrow> state \<Rightarrow> (error + string) \<times> state" where
  "save_then_publish ev message room st =
     (let st1 = emit (SaveMessage message) st
      in case firestore_add ev message of
           Inl e \<Rightarrow> (Inl e, st1)
         | Inr docId \<Rightarrow> (Inr docId, publishToRoom room message (emit (Persist message) st1)))"

definition sendDirectMessage ::
  "env \<Rightarrow> nat \<Rightarrow> string \<Rightarrow> string \<Rightarrow> string \<Rightarrow> string \<Rightarrow> string \<Rightarrow> string \<Rightarrow> string \<Rightarrow>
   string list option \<Rightarrow> state \<Rightarrow> send_result \<times> state" where
  "sendDirectMessage ev now sender sType recipientId recipientType tenant subj cont urls st =
     (let permissions = checkCommunicationPermissions sender sType recipientId recipientType in
      if \<not> canMessage permissions then
        (\<lparr>success = False, messageId = None, send_error = errorMessage permissions\<rparr>, st)
      else
        (let (mid, st1) = fresh_id ev ''msg_'' st;
             message = \<lparr>id' = mid, senderId = sender, senderType = sType,
                        recipientIds = [recipientId], tenantId = tenant,
                        messageType = media_or urls ''direct'',
                        content = cont, subject = subj, mediaUrls = urls,
                        msg_status = ''sent'', sentAt = now\<rparr>
         in case save_then_publish ev message (''user:'' @ recipientId) st1 of
              (Inr docId, st2) \<Rightarrow>
                (\<lparr>success = True, messageId = Some docId, send_error = None\<rparr>, st2)
            | (Inl e, st2) \<Rightarrow>
                (\<lparr>success = False, messageId = None,
                  send_error = Some ''Failed to send message''\<rparr>, st2)))"

text \<open>
  \<open>sendAnnouncement\<close>: the loop over the recipients, with the identifiers collected so
  far; a recipient whose write fails is skipped.
\<close>

fun sendAnnouncement_loop ::
  "env \<Rightarrow> nat \<Rightarrow> string \<Rightarrow> string \<Rightarrow> string \<Rightarrow> string \<Rightarrow> string \<Rightarrow> string list option \<Rightarrow>
   string list \<Rightarrow> string list \<Rightarrow> state \<Rightarrow> string list \<times> state" where
  "sendAnnouncement_loop ev now sender sType tenant subj cont urls [] messageIds st =
     (messageIds, st)"
| "sendAnnouncement_loop ev now sender sType tenant subj cont urls (recipientId # rest) messageIds st =
     (let permissions = checkCommunicationPermissions sender sType recipientId ''guardian'' in
      if \<not> canMessage permissions then
        sendAnnouncement_loop ev now sender sType tenant subj cont urls rest messageIds st
      else
        (let (mid, st1) = fresh_id ev ''msg_'' st;
             message = \<lparr>id' = mid, senderId = sender, senderType = sType,
                        recipientIds = [recipientId], tenantId = tenant,
                        messageType = media_or urls ''announcement'',
                        content = cont, subject = subj, mediaUrls = urls,
                        msg_status = ''sent'', sentAt = now\<rparr>
         in case save_then_publish ev message (''user:'' @ recipientId) st1 of
              (Inr docId, st2) \<Rightarrow>
                sendAnnouncement_loop ev now sender sType tenant subj cont urls rest
                  (messageIds @ [docId]) st2
            | (Inl e, st2) \<Rightarrow>
                sendAnnouncement_loop ev now sender sType tenant subj cont urls rest messageIds st2))"

definition sendAnnouncement ::
  "env \<Rightarrow> nat \<Rightarrow> string \<Rightarrow> string \<Rightarrow> string \<Rightarrow> string list \<Rightarrow> string \<Rightarrow> string \<Rightarrow>
   string list option \<Rightarrow> state \<Rightarrow> (bool \<times> string list) \<times> state" where
  "sendAnnouncement ev now sender sType tenant recipients subj cont urls st =
     (let (messageIds, st1) =
            sendAnnouncement_loop ev now sender sType tenant subj cont urls recipients [] st
      in ((True, messageIds), st1))"

definition sendDailyNote ::
  "env \<Rightarrow> nat \<Rightarrow> string \<Rightarrow> string \<Rightarrow> string \<Rightarrow> string \<Rightarrow> string \<Rightarrow> string \<Rightarrow> string \<Rightarrow>
   string list option \<Rightarrow> state \<Rightarrow> send_result \<times> state" where
  "sendDailyNote ev now sender sType guardianId studentId tenant subj cont urls st =
     (if sType \<noteq> ''staff'' \<and> sType \<noteq> ''director'' then
        (\<lparr>success = False, messageId = None,
          send_error = Some ''Only staffs and directors can send daily notes to guardians''\<rparr>, st)
      else
        (let (mid, st1) = fresh_id ev ''msg_'' st;
             message = \<lparr>id' = mid, senderId = sender, senderType = sType,
                        recipientIds = [guardianId], tenantId = tenant,
                        messageType = media_or urls ''daily-note'',
                        content = cont, subject = subj, mediaUrls = urls,
                        msg_status = ''sent'', sentAt = now\<rparr>
         in case save_then_publish ev message (''user:'' @ guardianId) st1 of
              (Inr docId, st2) \<Rightarrow>
                (\<lparr>success = True, messageId = Some docId, send_error = None\<rparr>, st2)
            | (Inl e, st2) \<Rightarrow>
                (\<lparr>success = False, messageId = None,
                  send_error = Some ''Failed to send daily note''\<rparr>, st2)))"


section \<open>Realtime gateway\<close>

text \<open>
  \<open>socket/server.ts\<close>. A handshake request carries the parsed query parameters and the
  headers; a header that is absent reads as the empty string. The data bound to a
  socket by \<open>res.upgrade\<close> is a \<open>ws_data\<close>; a field absent from the session hash reads as
  \<open>undefined\<close>, written here as the empty string (both are falsy and differ from every
  role label).
\<close>

record request =
  query :: "(string \<times> string) list"
  req_headers :: "(string \<times> string) list"

definition getHeader :: "request \<Rightarrow> string \<Rightarrow> string" where
  "getHeader req h = (case map_of (req_headers req) h of None \<Rightarrow> [] | Some v \<Rightarrow> v)"

text \<open>\<open>s.replace(p, r)\<close> with a string pattern: the first occurrence only.\<close>

fun replace :: "string \<Rightarrow> string \<Rightarrow> string \<Rightarrow> string" where
  "replace p r [] = (if p = [] then r else [])"
| "replace p r (c # cs) =
     (if take (length p) (c # cs) = p then r @ drop (length p) (c # cs)
      else c # replace p r cs)"

record ws_data =
  userId :: string
  userType :: string
  ws_tenantId :: string
  sessionId :: string
  token :: string

datatype upgrade_result = Closed | Upgraded ws_data

definition getSessionData :: "redis \<Rightarrow> nat \<Rightarrow> string \<Rightarrow> (string \<times> string) list option" where
  "getSessionData st now sid =
     (case hGetAll st now (''session:'' @ sid) of
        Inl e \<Rightarrow> None
      | Inr d \<Rightarrow> if field d ''userId'' \<noteq> [] then Some d else None)"

definition upgrade :: "redis \<Rightarrow> nat \<Rightarrow> request \<Rightarrow> upgrade_result" where
  "upgrade st now req =
     (let sid = map_of (query req) ''sessionId'';
          authHeader = (if getHeader req ''authorization'' \<noteq> []
                        then getHeader req ''authorization''
                        else getHeader req ''Authorization'');
          tok = (if authHeader \<noteq> [] then Some (replace ''Bearer '' [] authHeader) else None)
      in case (sid, tok) of
           (Some s, Some t) \<Rightarrow>
             if s = [] \<or> t = [] then Closed
             else (case getSessionData st now s of
                     None \<Rightarrow> Closed
                   | Some session \<Rightarrow>
                       Upgraded \<lparr>userId = field session ''userId'',
                                 userType = field session ''userType'',
                                 ws_tenantId = field session ''tenantId'',
                                 sessionId = s, token = t\<rparr>)
         | _ \<Rightarrow> Closed)"

text \<open>
  \<open>determineRecipientType\<close>: the role of the recipient as the identity service reports
  it, and \<open>'guardian'\<close> when the call fails or reports no known role.
\<close>

definition determineRecipientType :: "env \<Rightarrow> string \<Rightarrow> string \<Rightarrow> string" where
  "determineRecipientType ev recipientId tok =
     (let response = callJanusApi ev (''/api/v1/users/'' @ recipientId) (Some tok) ''GET'' in
      if api_success response \<and>
         (case api_data response of None \<Rightarrow> False | Some b \<Rightarrow> data_success b)
      then (case api_data response of
              None \<Rightarrow> ''guardian''
            | Some b \<Rightarrow>
                (case data_user b of
                   None \<Rightarrow> ''guardian''
                 | Some u \<Rightarrow>
                     (case role u of
                        None \<Rightarrow> ''guardian''
                      | Some userRole \<Rightarrow>
                          if userRole \<in> set [''staff'', ''director'', ''guardian'', ''student'']
                          then userRole else ''guardian'')))
      else ''guardian'')"

text \<open>An inbound frame after \<open>JSON.parse\<close>; \<open>None\<close> stands for a text that does not parse.\<close>

record frame =
  f_type :: string
  recipientId :: string
  f_content :: string
  f_subject :: "string option"
  f_mediaUrls :: "string list option"

definition group_message :: "env \<Rightarrow> nat \<Rightarrow> ws_data \<Rightarrow> frame \<Rightarrow> string list \<Rightarrow> state \<Rightarrow> IMessage \<times> state" where
  "group_message ev now ws f roomUsers st =
     (let (mid, st1) = fresh_id ev ''msg_'' st
      in (\<lparr>id' = mid, senderId = userId ws, senderType = userType ws,
           recipientIds = filter (\<lambda>i. i \<noteq> userId ws) roomUsers,
           tenantId = ws_tenantId ws,
           messageType = media_or (f_mediaUrls f) ''group'',
           content = f_content f,
           subject = or_else (f_subject f) ''Group Message'',
           mediaUrls = f_mediaUrls f,
           msg_status = ''sent'', sentAt = now\<rparr>, st1))"

fun publish_each :: "string \<Rightarrow> IMessage \<Rightarrow> string list \<Rightarrow> state \<Rightarrow> state" where
  "publish_each sender messageObj [] st = st"
| "publish_each sender messageObj (u # us) st =
     (if u \<noteq> sender
      then publish_each sender messageObj us (publishToRoom (''user:'' @ u) messageObj st)
      else publish_each sender messageObj us st)"

definition on_message :: "env \<Rightarrow> nat \<Rightarrow> ws_data \<Rightarrow> frame option \<Rightarrow> state \<Rightarrow> state" where
  "on_message ev now ws parsed st =
     (case parsed of
        None \<Rightarrow> emit (Send (error_frame ''Error processing message'')) st
      | Some f \<Rightarrow>
          if f_type f = ''direct'' then
            (let recipientType = determineRecipientType ev (recipientId f) (token ws);
                 (result, st1) =
                   sendDirectMessage ev now (userId ws) (userType ws) (recipientId f) recipientType
                     (ws_tenantId ws) (or_else (f_subject f) ''Direct Message'') (f_content f)
                     (f_mediaUrls f) st
             in if success result
                then emit (Send (message_sent (case messageId result of Some i \<Rightarrow> i | None \<Rightarrow> []))) st1
                else emit (Send (error_frame (or_else (send_error result) ''Failed to send message''))) st1)
          else if f_type f = ''group'' then
            (case getUsersInRoom (store st) now (recipientId f) of
               Inl e \<Rightarrow> emit (Send (error_frame ''Error processing message'')) st
             | Inr roomUsers \<Rightarrow>
                 (let (messageObj, st1) = group_message ev now ws f roomUsers st;
                      st2 = publish_each (userId ws) messageObj roomUsers st1
                  in emit (Send group_message_sent) st2))
          else emit (Send (error_frame ''Unknown message type'')) st)"

text \<open>
  The messages written to the document store and the publishes of a trace, and the
  property that every publish comes after a write of the same message.
\<close>

fun persisted :: "event list \<Rightarrow> IMessage list" where
  "persisted [] = []"
| "persisted (Persist m # es) = m # persisted es"
| "persisted (e # es) = persisted es"

fun published :: "event list \<Rightarrow> (string \<times> IMessage) list" where
  "published [] = []"
| "published (Publish c m # es) = (c, m) # published es"
| "published (e # es) = published es"

fun sent :: "event list \<Rightarrow> reply list" where
  "sent [] = []"
| "sent (Send r # es) = r # sent es"
| "sent (e # es) = sent es"

fun persisted_before_publish :: "IMessage list \<Rightarrow> event list \<Rightarrow> bool" where
  "persisted_before_publish seen [] = True"
| "persisted_before_publish seen (Persist m # es) = persisted_before_publish (m # seen) es"
| "persisted_before_publish seen (Publish c m # es) =
     (m \<in> set seen \<and> persisted_before_publish seen es)"
| "persisted_before_publish seen (e # es) = persisted_before_publish seen es"


text \<open>
  The events a step adds to the trace, the messages handed to the document store, every
  message of a list of events (handed to the store, written or published), and the type
  the specification gives a message sent on a path with the given media.
\<close>

definition new_events :: "state \<Rightarrow> state \<Rightarrow> event list" where
  "new_events st st' = drop (length (trace st)) (trace st')"

fun saved :: "event list \<Rightarrow> IMessage list" where
  "saved [] = []"
| "saved (SaveMessage m # es) = m # saved es"
| "saved (e # es) = saved es"

fun messages_of :: "event list \<Rightarrow> IMessage list" where
  "messages_of [] = []"
| "messages_of (SaveMessage m # es) = m # messages_of es"
| "messages_of (Persist m # es) = m # messages_of es"
| "messages_of (Publish c m # es) = m # messages_of es"
| "messages_of (e # es) = messages_of es"

fun expected_type :: "string list option \<Rightarrow> string \<Rightarrow> string" where
  "expected_type (Some (u # us)) t = ''media''"
| "expected_type (Some []) t = t"
| "expected_type None t = t"


section \<open>Task handlers\<close>

text \<open>
  \<open>services/queue-services.ts\<close>. Of the console output, the calls of \<open>console.warn\<close> and
  \<open>console.error\<close> are kept, in order; a handler returns them with its outcome.
\<close>

datatype level = WARN | ERROR

type_synonym log = "level \<times> string"

record WorkerTask =
  task_id :: string
  task_type :: "string option"
  task_payload :: payload
  task_tenantId :: string
  task_serviceId :: string
  createdAt :: string
  priority :: "string option"

text \<open>A value inside a template literal: \<open>undefined\<close> prints as the word.\<close>

definition template :: "string option \<Rightarrow> string" where
  "template v = (case v of None \<Rightarrow> ''undefined'' | Some s \<Rightarrow> s)"

definition handleEmailDispatch :: "env \<Rightarrow> WorkerTask \<Rightarrow> log list \<times> (error + unit)" where
  "handleEmailDispatch ev task =
     (let p = task_payload task;
          emailParams = \<lparr>to = (case recipientEmail p of Multiple xs \<Rightarrow> xs | Single x \<Rightarrow> [x]),
                         e_subject = p_subject p, html = p_body p,
                         e_attachments = attachments p\<rparr>;
          client = or_else (emailClient p) ''brevo''
      in case sendEmail ev emailParams client of
           Inr u \<Rightarrow> ([], Inr ())
         | Inl e \<Rightarrow> ([(ERROR, ''Failed to send email for task '' @ task_id task @ '':'')], Inl e))"

definition handleMediaProcessing :: "env \<Rightarrow> WorkerTask \<Rightarrow> log list \<times> (error + unit)" where
  "handleMediaProcessing ev task = ([], Inr ())"

text \<open>
  The second line logged for an error of \<open>axios\<close>, with the status and the body of its
  response; without a response both print as \<open>undefined\<close>. Of a response the model keeps
  the error text only, which stands for the status and the body in that line.
\<close>

definition axios_status_log :: "error \<Rightarrow> log list" where
  "axios_status_log e =
     (case e of
        AxiosError m None \<Rightarrow> [(ERROR, ''Status: undefined, Data: undefined'')]
      | AxiosError m (Some r) \<Rightarrow> [(ERROR, ''Status: , Data: '' @ r)]
      | _ \<Rightarrow> [])"

definition handleServiceRouting :: "env \<Rightarrow> WorkerTask \<Rightarrow> log list \<times> (error + unit)" where
  "handleServiceRouting ev task =
     (let p = task_payload task;
          meth = (case p_method p of None \<Rightarrow> ''POST'' | Some m \<Rightarrow> m);
          tmo = (case p_timeout p of None \<Rightarrow> 10000 | Some t \<Rightarrow> t);
          targetUrl =
            (if targetService p = ''athena'' then Inr (athenaApiUrl (config ev))
             else if targetService p = ''apollo'' then Inr (apolloApiUrl (config ev))
             else if targetService p = ''zeus'' then Inr (zeusApiUrl (config ev))
             else if targetService p = ''hestia'' then Inr (hestiaApiUrl (config ev))
             else if targetService p = ''janus'' then Inr (janusGatewayUrl (config ev))
             else Inl (Error (''Unknown target service: '' @ targetService p)));
          r = (case targetUrl of
                 Inl e \<Rightarrow> Inl e
               | Inr u \<Rightarrow>
                   axios ev \<lparr>http_method = meth, url = u @ p_endpoint p,
                             headers = [(''x-tenant-id'', task_tenantId task),
                                        (''x-service-id'', task_serviceId task),
                                        (''content-type'', ''application/json'')],
                             timeout = Some tmo\<rparr>)
      in case r of
           Inr response \<Rightarrow> ([], Inr ())
         | Inl e \<Rightarrow>
             ((ERROR, ''Failed to route service call for task '' @ task_id task @ '':'')
                # axios_status_log e, Inl e))"

definition handleNotification :: "env \<Rightarrow> WorkerTask \<Rightarrow> log list \<times> (error + unit)" where
  "handleNotification ev task = ([], Inr ())"

text \<open>
  \<open>handleAnnouncement\<close>. The configuration has no \<open>heraApiUrl\<close>, so the template literal
  of the staff query starts with the word \<open>undefined\<close>.
\<close>

definition handleAnnouncement :: "env \<Rightarrow> WorkerTask \<Rightarrow> log list \<times> (error + unit)" where
  "handleAnnouncement ev task =
     (let p = task_payload task;
          hs = [(''x-tenant-id'', task_tenantId task), (''x-service-id'', task_serviceId task)];
          emails_of = (\<lambda>response. case data response of
                                      None \<Rightarrow> Inr []
                                    | Some b \<Rightarrow> Inr (case data_emails b of None \<Rightarrow> [] | Some es \<Rightarrow> es));
          fetched =
            (if targetGroup p = ''Staff'' then
               (case axios ev \<lparr>http_method = ''GET'', url = ''undefined'' @ ''/api/v1/staff/emails'',
                               headers = hs, timeout = None\<rparr> of
                  Inl e \<Rightarrow> Inl e | Inr response \<Rightarrow> emails_of response)
             else if targetGroup p = ''Guardians'' then
               (case axios ev \<lparr>http_method = ''GET'',
                               url = hestiaApiUrl (config ev) @ ''/api/v1/guardians/emails'',
                               headers = hs, timeout = None\<rparr> of
                  Inl e \<Rightarrow> Inl e | Inr response \<Rightarrow> emails_of response)
             else Inl (Error (''Invalid target group: '' @ targetGroup p @ ''. Must be '' @
                              [CHR 0x27] @ ''Staff'' @ [CHR 0x27] @ '' or '' @
                              [CHR 0x27] @ ''Guardians'' @ [CHR 0x27])));
          r = (case fetched of
                 Inl e \<Rightarrow> Inl e
               | Inr emails \<Rightarrow>
                   if length emails = 0 then Inr ()
                   else sendEmail ev \<lparr>to = emails, e_subject = title p, html = p_body p,
                                      e_attachments = None\<rparr>
                          (or_else (emailClient p) ''brevo''))
      in case r of
           Inr u \<Rightarrow> ([], Inr ())
         | Inl e \<Rightarrow> ([(ERROR, ''Failed to send announcement for task '' @ task_id task @ '':'')], Inl e))"

definition handleBulkUpdate :: "env \<Rightarrow> WorkerTask \<Rightarrow> log list \<times> (error + unit)" where
  "handleBulkUpdate ev task =
     (let p = task_payload task;
          targetUrl =
            (if targetService p = ''athena'' then Inr (athenaApiUrl (config ev))
             else if targetService p = ''apollo'' then Inr (apolloApiUrl (config ev))
             else if targetService p = ''zeus'' then Inr (zeusApiUrl (config ev))
             else if targetService p = ''hestia'' then Inr (hestiaApiUrl (config ev))
             else if targetService p = ''hera'' then Inr ''undefined''
             else if targetService p = ''janus'' then Inr (janusGatewayUrl (config ev))
             else Inl (Error (''Unknown target service: '' @ targetService p)));
          r = (case targetUrl of
                 Inl e \<Rightarrow> Inl e
               | Inr u \<Rightarrow>
                   axios ev \<lparr>http_method = ''POST'', url = u @ p_endpoint p,
                             headers = [(''x-tenant-id'', task_tenantId task),
                                        (''x-service-id'', task_serviceId task),
                                        (''content-type'', ''application/json'')],
                             timeout = Some 30000\<rparr>)
      in case r of
           Inr response \<Rightarrow> ([], Inr ())
         | Inl e \<Rightarrow>
             ((ERROR, ''Failed to perform bulk update for task '' @ task_id task @ '':'')
                # axios_status_log e, Inl e))"

definition known_types :: "string list" where
  "known_types = [''email_dispatch'', ''media_processing'', ''service_routing'',
                  ''notification'', ''announcement'', ''bulk_update'']"

text \<open>
  \<open>handleTask\<close>: the \<open>switch\<close> on the type, whose \<open>default\<close> branch warns and returns; an
  error of a handler is logged and thrown again.
\<close>

definition handleTask :: "env \<Rightarrow> WorkerTask \<Rightarrow> log list \<times> (error + unit)" where
  "handleTask ev task =
     (let workerTask = task\<lparr>priority := Some (or_else (priority task) ''normal'')\<rparr>;
          (ls, r) =
            (if task_type workerTask = Some ''email_dispatch'' then handleEmailDispatch ev workerTask
             else if task_type workerTask = Some ''media_processing'' then handleMediaProcessing ev workerTask
             else if task_type workerTask = Some ''service_routing'' then handleServiceRouting ev workerTask
             else if task_type workerTask = Some ''notification'' then handleNotification ev workerTask
             else if task_type workerTask = Some ''announcement'' then handleAnnouncement ev workerTask
             else if task_type workerTask = Some ''bulk_update'' then handleBulkUpdate ev workerTask
             else ([(WARN, ''Unknown task type: '' @ template (task_type workerTask))], Inr ()))
      in case r of
           Inr u \<Rightarrow> (ls, Inr ())
         | Inl e \<Rightarrow> (ls @ [(ERROR, ''Error in handleTask for '' @ task_id workerTask @ '':'')], Inl e))"


section \<open>Queue consumer\<close>

text \<open>
  \<open>queue/worker.ts\<close>. The stream \<open>hermes:tasks\<close> with its one consumer group: the
  entries in order, the number of entries already delivered to the group, and the
  identifiers that are delivered and not acknowledged (the pending list). \<open>XREADGROUP\<close>
  with \<open>>\<close> and \<open>COUNT 1\<close> delivers the next entry and makes it pending; \<open>XACK\<close> removes
  an identifier from the pending list.
\<close>

record stream_message =
  sm_id :: string
  sm_message :: "(string \<times> string) list"

record stream =
  entries :: "stream_message list"
  delivered :: nat
  pending :: "string list"

record wstate =
  tasks :: stream
  logs :: "log list"

definition xReadGroup :: "stream \<Rightarrow> stream_message list \<times> stream" where
  "xReadGroup s =
     (if delivered s < length (entries s)
      then ([entries s ! delivered s],
            s\<lparr>delivered := delivered s + 1,
              pending := pending s @ [sm_id (entries s ! delivered s)]\<rparr>)
      else ([], s))"

definition xAck :: "string \<Rightarrow> stream \<Rightarrow> stream" where
  "xAck i s = s\<lparr>pending := removeAll i (pending s)\<rparr>"

text \<open>
  The task built from a claimed record; \<open>JSON.parse\<close> of an absent payload field throws
  a \<open>SyntaxError\<close>.
\<close>

definition parsedTask :: "env \<Rightarrow> stream_message \<Rightarrow> error + WorkerTask" where
  "parsedTask ev m =
     (case (case map_of (sm_message m) ''payload'' of
              None \<Rightarrow> Inl SyntaxError
            | Some t \<Rightarrow> JSON_parse ev t) of
        Inl e \<Rightarrow> Inl e
      | Inr p \<Rightarrow>
          Inr \<lparr>task_id = sm_id m,
               task_type = map_of (sm_message m) ''type'',
               task_payload = p,
               task_tenantId = field (sm_message m) ''tenantId'',
               task_serviceId = field (sm_message m) ''service'',
               createdAt = field (sm_message m) ''timestamp'',
               priority = None\<rparr>)"

text \<open>The body of the \<open>for\<close> loop of \<open>processQueue\<close> for one claimed record.\<close>

definition process_message :: "env \<Rightarrow> stream_message \<Rightarrow> wstate \<Rightarrow> wstate" where
  "process_message ev m st =
     (case parsedTask ev m of
        Inl e \<Rightarrow> st\<lparr>logs := logs st @ [(ERROR, ''Error processing task '' @ sm_id m @ '':'')]\<rparr>
      | Inr task \<Rightarrow>
          (case handleTask ev task of
             (ls, Inl e) \<Rightarrow>
               st\<lparr>logs := logs st @ ls @ [(ERROR, ''Error processing task '' @ sm_id m @ '':'')]\<rparr>
           | (ls, Inr u) \<Rightarrow>
               st\<lparr>tasks := xAck (sm_id m) (tasks st), logs := logs st @ ls\<rparr>))"

text \<open>
  Whether the handler of a claimed record returns without error: the record decodes and
  \<open>handleTask\<close> returns.
\<close>

definition handler_returns :: "env \<Rightarrow> stream_message \<Rightarrow> bool" where
  "handler_returns ev m =
     (case parsedTask ev m of
        Inl e \<Rightarrow> False
      | Inr task \<Rightarrow> (case snd (handleTask ev task) of Inl e \<Rightarrow> False | Inr u \<Rightarrow> True))"

fun process_messages :: "env \<Rightarrow> stream_message list \<Rightarrow> wstate \<Rightarrow> wstate" where
  "process_messages ev [] st = st"
| "process_messages ev (m # ms) st = process_messages ev ms (process_message ev m st)"

text \<open>One turn of the \<open>while (true)\<close> loop, and the loop run for a number of turns.\<close>

definition processQueue_turn :: "env \<Rightarrow> wstate \<Rightarrow> wstate" where
  "processQueue_turn ev st =
     (let (messages, s1) = xReadGroup (tasks st)
      in process_messages ev messages (st\<lparr>tasks := s1\<rparr>))"

fun processQueue :: "env \<Rightarrow> nat \<Rightarrow> wstate \<Rightarrow> wstate" where
  "processQueue ev 0 st = st"
| "processQueue ev (Suc n) st = processQueue ev n (processQueue_turn ev st)"


section \<open>Concrete scenarios\<close>

text \<open>
  Environments and states on which the theorems below are run: an identity service that
  reports a given role for every user, one that cannot be reached, a document store
  that refuses every write, a director's and a staff member's socket, and a stream
  holding one task.
\<close>

definition cfg0 :: config where
  "cfg0 = \<lparr>janusGatewayUrl = ''http://localhost:4455'', janusApiUrl = ''http://localhost:4456'',
           athenaApiUrl = ''http://localhost:3001'', apolloApiUrl = ''http://localhost:3002'',
           zeusApiUrl = ''http://localhost:3003'', hestiaApiUrl = ''http://localhost:3004''\<rparr>"

definition payload0 :: payload where
  "payload0 = \<lparr>recipientEmail = Single ''g@school.org'', p_subject = ''Hello'', p_body = ''Body'',
               attachments = None, emailClient = None, targetService = ''athena'',
               p_endpoint = ''/api/v1/sync'', p_data = ''{}'', p_method = None, p_timeout = None,
               title = ''Notice'', targetGroup = ''Staff''\<rparr>"

definition user_with_role :: "string \<Rightarrow> http_response" where
  "user_with_role r =
     \<lparr>status = 200,
      data = Some \<lparr>data_success = True, data_error = None,
                   data_user = Some \<lparr>uid = Some ''9'', name = Some ''Ada'',
                                     email = Some ''ada@school.org'', role = Some r\<rparr>,
                   data_tenantId = Some ''t1'', data_emails = None\<rparr>\<rparr>"

definition env_up :: "string \<Rightarrow> env" where
  "env_up r = \<lparr>config = cfg0, axios = (\<lambda>req. Inr (user_with_role r)),
               firestore_add = (\<lambda>m. Inr ''doc1''), uuidv7 = (\<lambda>n. ''0190''),
               email_issue = (\<lambda>s. if s = [] then Some ''Invalid email'' else None), sendEmail = (\<lambda>p c. Inr ()),
               JSON_parse = (\<lambda>t. Inr payload0)\<rparr>"

definition env_down :: env where
  "env_down = \<lparr>config = cfg0, axios = (\<lambda>req. Inl (AxiosError ''connect ECONNREFUSED'' None)),
               firestore_add = (\<lambda>m. Inr ''doc1''), uuidv7 = (\<lambda>n. ''0190''),
               email_issue = (\<lambda>s. if s = [] then Some ''Invalid email'' else None), sendEmail = (\<lambda>p c. Inr ()),
               JSON_parse = (\<lambda>t. Inr payload0)\<rparr>"

definition env_nostore :: env where
  "env_nostore = \<lparr>config = cfg0, axios = (\<lambda>req. Inr (user_with_role ''guardian'')),
                  firestore_add = (\<lambda>m. Inl (Error ''Cannot use undefined as a Firestore value'')),
                  uuidv7 = (\<lambda>n. ''0190''),
                  email_issue = (\<lambda>s. if s = [] then Some ''Invalid email'' else None),
                  sendEmail = (\<lambda>p c. Inr ()), JSON_parse = (\<lambda>t. Inr payload0)\<rparr>"

definition director1 :: ws_data where
  "director1 = \<lparr>userId = ''1'', userType = ''director'', ws_tenantId = ''t1'',
                sessionId = ''s1'', token = ''tok''\<rparr>"

definition staff7 :: ws_data where
  "staff7 = \<lparr>userId = ''7'', userType = ''staff'', ws_tenantId = ''t1'',
             sessionId = ''s7'', token = ''tok''\<rparr>"

definition direct_to_9 :: frame where
  "direct_to_9 = \<lparr>f_type = ''direct'', recipientId = ''9'', f_content = ''See me'',
                  f_subject = None, f_mediaUrls = None\<rparr>"

definition group_to_r1 :: frame where
  "group_to_r1 = \<lparr>f_type = ''group'', recipientId = ''r1'', f_content = ''Homework due Friday'',
                  f_subject = None, f_mediaUrls = None\<rparr>"

definition state0 :: state where
  "state0 = \<lparr>store = Map.empty, trace = [], uuids = 0\<rparr>"

text \<open>The room \<open>r1\<close> with the members 7, 42 and 43, as \<open>addUserToRoom\<close> leaves it.\<close>

definition room_r1 :: redis where
  "room_r1 = [''room:r1'' \<mapsto> (RSet [''7'', ''42'', ''43''], Some 3600),
              ''user:room:7'' \<mapsto> (RString ''r1'', Some 3600),
              ''user:room:42'' \<mapsto> (RString ''r1'', Some 3600),
              ''user:room:43'' \<mapsto> (RString ''r1'', Some 3600)]"

definition task_record :: "string \<Rightarrow> stream_message" where
  "task_record ty =
     \<lparr>sm_id = ''1-0'',
      sm_message = [(''id'', ''task_1''), (''service'', ''athena''), (''type'', ty),
                    (''payload'', ''{}''), (''tenantId'', ''t1''), (''timestamp'', ''0'')]\<rparr>"

definition one_task :: "string \<Rightarrow> wstate" where
  "one_task ty = \<lparr>tasks = \<lparr>entries = [task_record ty], delivered = 0, pending = []\<rparr>, logs = []\<rparr>"


section \<open>Properties of the communication policy\<close>

text \<open>
  C1. For every pair of role labels drawn from staff, director, guardian and student,
  the policy check allows the pair, except for the pair of director and student in
  either order, which is denied with a reason that is not empty.
\<close>

theorem C1_policy_decision:
  "\<forall>s \<in> role_labels. \<forall>r \<in> role_labels.
     (if (s = ''director'' \<and> r = ''student'') \<or> (s = ''student'' \<and> r = ''director'')
      then \<not> canMessage (checkCommunicationPermissions sid s rid r) \<and>
           (\<exists>reason. errorMessage (checkCommunicationPermissions sid s rid r) = Some reason
                      \<and> reason \<noteq> [])
      else canMessage (checkCommunicationPermissions sid s rid r))"
  by (simp add: checkCommunicationPermissions_def)

theorem C1_policy_decision_witness:
  "''director'' \<in> role_labels \<and> ''student'' \<in> role_labels \<and> ''staff'' \<in> role_labels \<and>
   \<not> canMessage (checkCommunicationPermissions ''1'' ''director'' ''9'' ''student'') \<and>
   \<not> canMessage (checkCommunicationPermissions ''9'' ''student'' ''1'' ''director'') \<and>
   canMessage (checkCommunicationPermissions ''7'' ''staff'' ''9'' ''student'') \<and>
   canMessage (checkCommunicationPermissions ''1'' ''director'' ''7'' ''staff'')"
proof -
  have m: "''director'' \<in> role_labels" "''student'' \<in> role_labels" "''staff'' \<in> role_labels"
    by (simp_all add: role_labels_def)
  have a: "\<not> canMessage (checkCommunicationPermissions ''1'' ''director'' ''9'' ''student'')"
    using C1_policy_decision [of "''1''" "''9''"] m by fastforce
  have b: "\<not> canMessage (checkCommunicationPermissions ''9'' ''student'' ''1'' ''director'')"
    using C1_policy_decision [of "''9''" "''1''"] m by fastforce
  have c: "canMessage (checkCommunicationPermissions ''7'' ''staff'' ''9'' ''student'')"
    using C1_policy_decision [of "''7''" "''9''"] m by fastforce
  have d: "canMessage (checkCommunicationPermissions ''1'' ''director'' ''7'' ''staff'')"
    using C1_policy_decision [of "''1''" "''7''"] m by fastforce
  from m a b c d show ?thesis by simp
qed


section \<open>Properties of the direct path\<close>

lemma persisted_append [simp]: "persisted (xs @ ys) = persisted xs @ persisted ys"
  by (induction xs rule: persisted.induct) simp_all

lemma published_append [simp]: "published (xs @ ys) = published xs @ published ys"
  by (induction xs rule: published.induct) simp_all

lemma sent_append [simp]: "sent (xs @ ys) = sent xs @ sent ys"
  by (induction xs rule: sent.induct) simp_all

lemma denied_reason:
  "\<not> canMessage (checkCommunicationPermissions a s b r) \<Longrightarrow>
   errorMessage (checkCommunicationPermissions a s b r) =
     Some ''Communication between Director and Student is not allowed''"
  by (simp add: checkCommunicationPermissions_def split: if_splits)

lemma sendDirectMessage_denied:
  "\<not> canMessage (checkCommunicationPermissions a s b r) \<Longrightarrow>
   sendDirectMessage ev now a s b r tenant subj cont urls st =
     (\<lparr>success = False, messageId = None,
       send_error = Some ''Communication between Director and Student is not allowed''\<rparr>, st)"
  by (simp add: sendDirectMessage_def denied_reason Let_def)

text \<open>
  C2. When the policy check denies the pair of the sender's role and the recipient's
  role, a direct frame writes nothing to the document store and publishes nothing, and
  the sender receives an error frame carrying the policy's reason, the text
  "Communication between Director and Student is not allowed".
\<close>

theorem C2_denied_direct_message:
  assumes "f_type f = ''direct''"
    and "\<not> canMessage (checkCommunicationPermissions (userId ws) (userType ws) (recipientId f)
                         (determineRecipientType ev (recipientId f) (token ws)))"
  shows "trace (on_message ev now ws (Some f) st) =
           trace st @ [Send (error_frame ''Communication between Director and Student is not allowed'')]
         \<and> persisted (trace (on_message ev now ws (Some f) st)) = persisted (trace st)
         \<and> published (trace (on_message ev now ws (Some f) st)) = published (trace st)
         \<and> store (on_message ev now ws (Some f) st) = store st
         \<and> errorMessage (checkCommunicationPermissions (userId ws) (userType ws) (recipientId f)
                         (determineRecipientType ev (recipientId f) (token ws)))
             = Some ''Communication between Director and Student is not allowed''"
proof -
  have t: "on_message ev now ws (Some f) st =
             emit (Send (error_frame ''Communication between Director and Student is not allowed'')) st"
    using assms by (simp add: on_message_def sendDirectMessage_denied or_else_def)
  show ?thesis
    using assms(2) by (simp add: t emit_def denied_reason)
qed

lemma role_student: "determineRecipientType (env_up ''student'') ''9'' ''tok'' = ''student''"
  by (simp add: determineRecipientType_def callJanusApi_def env_up_def user_with_role_def Let_def)

theorem C2_denied_direct_message_witness:
  "f_type direct_to_9 = ''direct'' \<and>
   \<not> canMessage (checkCommunicationPermissions (userId director1) (userType director1)
                   (recipientId direct_to_9)
                   (determineRecipientType (env_up ''student'') (recipientId direct_to_9) (token director1))) \<and>
   trace (on_message (env_up ''student'') 0 director1 (Some direct_to_9) state0) =
     [Send (error_frame ''Communication between Director and Student is not allowed'')] \<and>
   persisted (trace (on_message (env_up ''student'') 0 director1 (Some direct_to_9) state0)) = [] \<and>
   published (trace (on_message (env_up ''student'') 0 director1 (Some direct_to_9) state0)) = []"
proof -
  have a: "f_type direct_to_9 = ''direct''" by (simp add: direct_to_9_def)
  have b: "\<not> canMessage (checkCommunicationPermissions (userId director1) (userType director1)
                   (recipientId direct_to_9)
                   (determineRecipientType (env_up ''student'') (recipientId direct_to_9) (token director1)))"
    by (simp add: direct_to_9_def director1_def role_student checkCommunicationPermissions_def)
  show ?thesis
    using C2_denied_direct_message [OF a b, of 0 state0] a b by (simp add: state0_def)
qed

section \<open>Properties of the upgrade\<close>

text \<open>
  \<open>storeSession\<close> writes the key \<open>session:<id>\<close> as a string, and \<open>getSessionData\<close> reads
  the same key as a hash: the read fails with \<open>WRONGTYPE\<close> while the key lives and finds
  nothing afterwards, so it never returns a session.
\<close>

lemma storeSession_key:
  "\<exists>v e. storeSession sid usr tid ttl now st (''session:'' @ sid) = Some (RString v, e)"
  by (simp add: storeSession_def setEx_def Let_def)

lemma getSessionData_storeSession:
  "getSessionData (storeSession sid usr tid ttl now st) now' sid = None"
proof -
  obtain v e where k: "storeSession sid usr tid ttl now st (''session:'' @ sid) = Some (RString v, e)"
    using storeSession_key by blast
  show ?thesis
    using k by (cases e) (simp_all add: getSessionData_def hGetAll_def live_def field_def)
qed

text \<open>
  C3. An upgrade request that carries the identifier of a session stored by
  \<open>storeSession\<close> and a bearer token is closed, at every time, also before the session
  expires.
\<close>

theorem C3_stored_session_is_refused:
  "upgrade (storeSession sid usr tid ttl now st) now'
     \<lparr>query = [(''sessionId'', sid)], req_headers = [(''authorization'', ''Bearer '' @ tok)]\<rparr> = Closed"
  by (simp add: upgrade_def getSessionData_storeSession Let_def split: option.splits)

text \<open>The HTTP routes read the same key with \<open>GET\<close> and do find the session.\<close>

lemma validateSession_storeSession:
  "now' < now + ttl \<Longrightarrow>
   validateSession (storeSession sid usr tid ttl now st) now' sid usr = Inr True"
  by (auto simp add: validateSession_def storeSession_def setEx_def get_def live_def Let_def)

text \<open>
  The other parts of the upgrade: it closes without a session identifier, without a
  token, and without a stored session; when it upgrades, the socket carries the fields
  of the session hash, the identifier and the token of the request.
\<close>

lemma upgrade_closed_without_session:
  "map_of (query req) ''sessionId'' = None \<or> map_of (query req) ''sessionId'' = Some [] \<Longrightarrow>
   upgrade st now req = Closed"
  by (auto simp add: upgrade_def Let_def split: option.splits)

lemma upgrade_closed_without_token:
  "getHeader req ''authorization'' = [] \<Longrightarrow> getHeader req ''Authorization'' = [] \<Longrightarrow>
   upgrade st now req = Closed"
  by (simp add: upgrade_def Let_def split: option.splits)

lemma upgrade_closed_without_stored_session:
  "map_of (query req) ''sessionId'' = Some s \<Longrightarrow> getSessionData st now s = None \<Longrightarrow>
   upgrade st now req = Closed"
  by (simp add: upgrade_def Let_def split: option.splits)

lemma upgrade_binds:
  "upgrade st now req = Upgraded ws \<Longrightarrow>
   \<exists>session. map_of (query req) ''sessionId'' = Some (sessionId ws) \<and>
     getSessionData st now (sessionId ws) = Some session \<and>
     userId ws = field session ''userId'' \<and> userType ws = field session ''userType'' \<and>
     ws_tenantId ws = field session ''tenantId'' \<and> token ws \<noteq> []"
  by (auto simp add: upgrade_def Let_def split: option.splits if_splits)

section \<open>Properties of the queue consumer\<close>

lemma process_message_returns:
  "handler_returns ev m \<Longrightarrow>
   tasks (process_message ev m st) = xAck (sm_id m) (tasks st)"
  by (auto simp add: handler_returns_def process_message_def split: sum.splits prod.splits)

lemma process_message_throws:
  "\<not> handler_returns ev m \<Longrightarrow>
   tasks (process_message ev m st) = tasks st \<and>
   last (logs (process_message ev m st)) = (ERROR, ''Error processing task '' @ sm_id m @ '':'')"
  by (auto simp add: handler_returns_def process_message_def split: sum.splits prod.splits)

text \<open>
  C4. The record that a turn of the consumer claims is still pending after the turn
  exactly when its handler did not return without error: it is acknowledged if and
  only if the handler returns. When the handler throws, the last line logged is the
  error of that record, and the record stays in the pending list.
\<close>

theorem C4_acknowledged_iff_handler_returns:
  assumes "delivered (tasks st) < length (entries (tasks st))"
  shows "(sm_id (entries (tasks st) ! delivered (tasks st))
            \<in> set (pending (tasks (processQueue_turn ev st))))
         = (\<not> handler_returns ev (entries (tasks st) ! delivered (tasks st)))
       \<and> (\<not> handler_returns ev (entries (tasks st) ! delivered (tasks st)) \<longrightarrow>
            last (logs (processQueue_turn ev st)) =
              (ERROR, ''Error processing task '' @
                      sm_id (entries (tasks st) ! delivered (tasks st)) @ '':''))"
proof (cases "handler_returns ev (entries (tasks st) ! delivered (tasks st))")
  case True
  then show ?thesis using assms
    by (simp add: processQueue_turn_def xReadGroup_def process_message_returns xAck_def)
next
  case False
  then show ?thesis using assms
    by (simp add: processQueue_turn_def xReadGroup_def process_message_throws)
qed

lemma routing_down: "\<not> handler_returns env_down (task_record ''service_routing'')"
  by (simp add: handler_returns_def parsedTask_def task_record_def env_down_def handleTask_def
      handleServiceRouting_def payload0_def cfg0_def Let_def or_else_def)

lemma routing_up: "handler_returns (env_up ''staff'') (task_record ''service_routing'')"
  by (simp add: handler_returns_def parsedTask_def task_record_def env_up_def handleTask_def
      handleServiceRouting_def payload0_def cfg0_def Let_def or_else_def)

theorem C4_acknowledged_iff_handler_returns_witness:
  "delivered (tasks (one_task ''service_routing''))
     < length (entries (tasks (one_task ''service_routing''))) \<and>
   ''1-0'' \<in> set (pending (tasks (processQueue_turn env_down (one_task ''service_routing'')))) \<and>
   last (logs (processQueue_turn env_down (one_task ''service_routing'')))
     = (ERROR, ''Error processing task 1-0:'') \<and>
   ''1-0'' \<notin> set (pending (tasks (processQueue_turn (env_up ''staff'') (one_task ''service_routing''))))"
proof -
  have d: "delivered (tasks (one_task ''service_routing''))
             < length (entries (tasks (one_task ''service_routing'')))"
    by (simp add: one_task_def)
  have e: "entries (tasks (one_task ''service_routing''))
             ! delivered (tasks (one_task ''service_routing'')) = task_record ''service_routing''"
    by (simp add: one_task_def)
  have i: "sm_id (task_record ''service_routing'') = ''1-0''"
    by (simp add: task_record_def)
  from C4_acknowledged_iff_handler_returns [OF d, of env_down] routing_down
  have a: "''1-0'' \<in> set (pending (tasks (processQueue_turn env_down (one_task ''service_routing''))))"
    and b: "last (logs (processQueue_turn env_down (one_task ''service_routing'')))
              = (ERROR, ''Error processing task 1-0:'')"
    unfolding e i by simp_all
  from C4_acknowledged_iff_handler_returns [OF d, of "env_up ''staff''"] routing_up
  have c: "''1-0'' \<notin> set (pending (tasks (processQueue_turn (env_up ''staff'') (one_task ''service_routing''))))"
    unfolding e i by simp
  from d a b c show ?thesis by simp
qed

text \<open>The \<open>default\<close> branch of \<open>handleTask\<close> warns and returns without error.\<close>

lemma handleTask_unknown:
  "task_type task \<notin> Some ` set known_types \<Longrightarrow>
   handleTask ev task = ([(WARN, ''Unknown task type: '' @ template (task_type task))], Inr ())"
  by (auto simp add: handleTask_def known_types_def Let_def)

text \<open>
  C5, as the code has it. For every claimed record whose payload decodes and whose type
  is not one of the six known types, the consumer logs a warning that names the unknown
  type and acknowledges the record.
\<close>

theorem C5_unknown_type_is_acknowledged:
  assumes "delivered (tasks st) < length (entries (tasks st))"
    and "parsedTask ev (entries (tasks st) ! delivered (tasks st)) = Inr task"
    and "task_type task \<notin> Some ` set known_types"
  shows "sm_id (entries (tasks st) ! delivered (tasks st))
           \<notin> set (pending (tasks (processQueue_turn ev st)))
       \<and> logs (processQueue_turn ev st) =
           logs st @ [(WARN, ''Unknown task type: '' @ template (task_type task))]"
  using assms
  by (simp add: processQueue_turn_def xReadGroup_def process_message_def handleTask_unknown xAck_def)

lemma parsed_foo:
  "parsedTask (env_up ''staff'') (task_record ''foo'') =
     Inr \<lparr>task_id = ''1-0'', task_type = Some ''foo'', task_payload = payload0,
          task_tenantId = ''t1'', task_serviceId = ''athena'', createdAt = ''0'', priority = None\<rparr>"
  by (simp add: parsedTask_def task_record_def env_up_def field_def)

theorem C5_unknown_type_is_acknowledged_witness:
  "delivered (tasks (one_task ''foo'')) < length (entries (tasks (one_task ''foo''))) \<and>
   Some ''foo'' \<notin> Some ` set known_types \<and>
   ''1-0'' \<notin> set (pending (tasks (processQueue_turn (env_up ''staff'') (one_task ''foo'')))) \<and>
   logs (processQueue_turn (env_up ''staff'') (one_task ''foo'')) = [(WARN, ''Unknown task type: foo'')]"
proof -
  have d: "delivered (tasks (one_task ''foo'')) < length (entries (tasks (one_task ''foo'')))"
    by (simp add: one_task_def)
  have e: "entries (tasks (one_task ''foo'')) ! delivered (tasks (one_task ''foo'')) = task_record ''foo''"
    by (simp add: one_task_def)
  have p: "parsedTask (env_up ''staff'')
             (entries (tasks (one_task ''foo'')) ! delivered (tasks (one_task ''foo''))) =
           Inr \<lparr>task_id = ''1-0'', task_type = Some ''foo'', task_payload = payload0,
                task_tenantId = ''t1'', task_serviceId = ''athena'', createdAt = ''0'', priority = None\<rparr>"
    unfolding e by (rule parsed_foo)
  have u: "task_type \<lparr>task_id = ''1-0'', task_type = Some ''foo'', task_payload = payload0,
                task_tenantId = ''t1'', task_serviceId = ''athena'', createdAt = ''0'', priority = None\<rparr>
            \<notin> Some ` set known_types"
    by (simp add: known_types_def)
  have u': "Some ''foo'' \<notin> Some ` set known_types"
    by (simp add: known_types_def)
  have i: "sm_id (task_record ''foo'') = ''1-0''"
    by (simp add: task_record_def)
  have l: "logs (one_task ''foo'') = []"
    by (simp add: one_task_def)
  from C5_unknown_type_is_acknowledged [OF d p u]
  have "''1-0'' \<notin> set (pending (tasks (processQueue_turn (env_up ''staff'') (one_task ''foo''))))"
    and "logs (processQueue_turn (env_up ''staff'') (one_task ''foo'')) = [(WARN, ''Unknown task type: foo'')]"
    unfolding e i l by (simp_all add: template_def)
  with d u' show ?thesis by simp
qed

text \<open>
  C5 as stated fails: the record of type \<open>foo\<close> is claimed, and after the turn it is no
  longer pending.
\<close>

theorem C5_unknown_type_counterexample:
  "map_of (sm_message (task_record ''foo'')) ''type'' = Some ''foo'' \<and>
   ''foo'' \<notin> set known_types \<and>
   xReadGroup (tasks (one_task ''foo'')) =
     ([task_record ''foo''], \<lparr>entries = [task_record ''foo''], delivered = 1, pending = [''1-0'']\<rparr>) \<and>
   pending (tasks (processQueue_turn (env_up ''staff'') (one_task ''foo''))) = []"
  by (simp add: processQueue_turn_def xReadGroup_def process_message_def parsed_foo
      handleTask_def known_types_def one_task_def xAck_def Let_def)
   (simp add: task_record_def)

section \<open>Order of writes and publishes\<close>

lemma persisted_before_publish_append:
  "persisted_before_publish seen (xs @ ys) =
     (persisted_before_publish seen xs \<and> persisted_before_publish (rev (persisted xs) @ seen) ys)"
  by (induction seen xs rule: persisted_before_publish.induct) simp_all

lemma save_then_publish_trace:
  "trace (snd (save_then_publish ev m room st)) =
     trace st @ SaveMessage m #
       (case firestore_add ev m of Inl e \<Rightarrow> [] | Inr d \<Rightarrow> [Persist m, Publish room m])"
  by (simp add: save_then_publish_def publishToRoom_def emit_def Let_def split: sum.splits)

lemma save_then_publish_ordered:
  "persisted_before_publish seen (trace st) \<Longrightarrow>
   persisted_before_publish seen (trace (snd (save_then_publish ev m room st)))"
  by (simp add: save_then_publish_trace persisted_before_publish_append split: sum.splits)

lemma fresh_id_trace [simp]: "trace (snd (fresh_id ev p st)) = trace st"
  by (simp add: fresh_id_def)

text \<open>On the direct path every publish comes after the write of the same message.\<close>

lemma sendDirectMessage_ordered:
  assumes "persisted_before_publish seen (trace st)"
  shows "persisted_before_publish seen
           (trace (snd (sendDirectMessage ev now a s b r tenant subj cont urls st)))"
proof (cases "canMessage (checkCommunicationPermissions a s b r)")
  case False
  then show ?thesis using assms by (simp add: sendDirectMessage_def Let_def)
next
  case True
  obtain mid st1 where f: "fresh_id ev ''msg_'' st = (mid, st1)" by (cases "fresh_id ev ''msg_'' st")
  then have t: "trace st1 = trace st" using fresh_id_trace [of ev "''msg_''" st] by simp
  have o: "\<And>m room. persisted_before_publish seen (trace (snd (save_then_publish ev m room st1)))"
    using assms t by (simp add: save_then_publish_ordered)
  show ?thesis using True f o
    by (simp add: sendDirectMessage_def Let_def split: prod.splits sum.splits)
       (metis snd_conv)
qed

section \<open>Properties of the group path\<close>

lemma publish_each_trace:
  "trace (publish_each sender m us st) =
     trace st @ map (\<lambda>u. Publish (''user:'' @ u) m) (filter (\<lambda>u. u \<noteq> sender) us)"
  by (induction us arbitrary: st) (simp_all add: publishToRoom_def emit_def)

lemma group_message_fields:
  "trace (snd (group_message ev now ws f roomUsers st)) = trace st \<and>
   recipientIds (fst (group_message ev now ws f roomUsers st))
     = filter (\<lambda>i. i \<noteq> userId ws) roomUsers \<and>
   messageType (fst (group_message ev now ws f roomUsers st)) = media_or (f_mediaUrls f) ''group''"
  by (simp add: group_message_def fresh_id_def Let_def)

lemma on_message_group_trace:
  assumes "f_type f = ''group''"
    and "getUsersInRoom (store st) now (recipientId f) = Inr members"
  shows "trace (on_message ev now ws (Some f) st) =
           trace st @
           map (\<lambda>u. Publish (''user:'' @ u) (fst (group_message ev now ws f members st)))
               (filter (\<lambda>u. u \<noteq> userId ws) members) @
           [Send group_message_sent]"
proof -
  obtain mo st1 where g: "group_message ev now ws f members st = (mo, st1)"
    by (cases "group_message ev now ws f members st")
  have t: "trace st1 = trace st"
    using group_message_fields [of ev now ws f members st] g by simp
  show ?thesis
    using assms by (simp add: on_message_def g t emit_def publish_each_trace)
qed

lemma published_map_Publish:
  "published (map (\<lambda>u. Publish (c u) m) us) = map (\<lambda>u. (c u, m)) us"
  by (induction us) simp_all

lemma count_channels:
  "distinct us \<Longrightarrow>
   count_list (map (\<lambda>u. ''user:'' @ u) (filter P us)) (''user:'' @ v) =
     (if v \<in> set us \<and> P v then 1 else 0)"
  by (induction us) auto

lemma sMembers_distinct:
  "sets_distinct st \<Longrightarrow> sMembers st now k = Inr xs \<Longrightarrow> distinct xs"
proof -
  assume inv: "sets_distinct st" and m: "sMembers st now k = Inr xs"
  show "distinct xs"
  proof (cases "xs = []")
    case True
    then show ?thesis by simp
  next
    case False
    with m obtain e where "st k = Some (RSet xs, e)"
      by (auto simp add: sMembers_def live_def split: option.splits rvalue.splits if_splits)
    with inv show ?thesis unfolding sets_distinct_def by blast
  qed
qed

text \<open>
  C8. For a group frame, the gateway publishes one envelope on the channel of every
  member of the room except the sender, once for each such member, and on no channel
  when the room has no members; the recipients named in the envelope are the members
  without the sender.
\<close>

theorem C8_group_fan_out:
  assumes "f_type f = ''group''"
    and "sets_distinct (store st)"
    and "getUsersInRoom (store st) now (recipientId f) = Inr members"
  shows "\<exists>m. published (new_events st (on_message ev now ws (Some f) st)) =
               map (\<lambda>u. (''user:'' @ u, m)) (filter (\<lambda>u. u \<noteq> userId ws) members)
             \<and> recipientIds m = filter (\<lambda>u. u \<noteq> userId ws) members
             \<and> set (recipientIds m) = set members - {userId ws}
             \<and> (\<forall>v. count_list
                       (map fst (published (new_events st (on_message ev now ws (Some f) st))))
                       (''user:'' @ v)
                     = (if v \<in> set members \<and> v \<noteq> userId ws then 1 else 0))
             \<and> (members = [] \<longrightarrow>
                  published (new_events st (on_message ev now ws (Some f) st)) = [])"
proof -
  let ?m = "fst (group_message ev now ws f members st)"
  have d: "distinct members"
    using assms(2,3) by (auto simp add: getUsersInRoom_def dest: sMembers_distinct)
  have p: "published (new_events st (on_message ev now ws (Some f) st)) =
             map (\<lambda>u. (''user:'' @ u, ?m)) (filter (\<lambda>u. u \<noteq> userId ws) members)"
    by (simp add: new_events_def on_message_group_trace [OF assms(1,3)] published_map_Publish)
  have r: "recipientIds ?m = filter (\<lambda>u. u \<noteq> userId ws) members"
    by (simp add: group_message_fields)
  have c: "\<forall>v. count_list
                 (map fst (published (new_events st (on_message ev now ws (Some f) st))))
                 (''user:'' @ v)
               = (if v \<in> set members \<and> v \<noteq> userId ws then 1 else 0)"
    using count_channels [OF d, of "\<lambda>u. u \<noteq> userId ws"] by (simp add: p comp_def)
  have e: "members = [] \<longrightarrow> published (new_events st (on_message ev now ws (Some f) st)) = []"
    by (simp add: p)
  from p r c e show ?thesis by (intro exI [of _ ?m]) auto
qed

lemma room_r1_distinct: "sets_distinct room_r1"
  by (auto simp add: sets_distinct_def room_r1_def split: if_splits)

lemma room_r1_members:
  "getUsersInRoom room_r1 0 ''r1'' = Inr [''7'', ''42'', ''43'']"
  by (simp add: getUsersInRoom_def sMembers_def live_def room_r1_def)

theorem C8_group_fan_out_witness:
  "f_type group_to_r1 = ''group'' \<and> sets_distinct (store (state0\<lparr>store := room_r1\<rparr>)) \<and>
   getUsersInRoom (store (state0\<lparr>store := room_r1\<rparr>)) 0 (recipientId group_to_r1)
     = Inr [''7'', ''42'', ''43''] \<and>
   map fst (published (new_events (state0\<lparr>store := room_r1\<rparr>)
        (on_message (env_up ''staff'') 0 staff7 (Some group_to_r1) (state0\<lparr>store := room_r1\<rparr>))))
     = [''user:42'', ''user:43'']"
proof -
  have a: "f_type group_to_r1 = ''group''" by (simp add: group_to_r1_def)
  have b: "sets_distinct (store (state0\<lparr>store := room_r1\<rparr>))" by (simp add: room_r1_distinct)
  have c: "getUsersInRoom (store (state0\<lparr>store := room_r1\<rparr>)) 0 (recipientId group_to_r1)
             = Inr [''7'', ''42'', ''43'']"
    by (simp add: group_to_r1_def room_r1_members)
  from C8_group_fan_out [OF a b c, of "env_up ''staff''" staff7]
  obtain m where "published (new_events (state0\<lparr>store := room_r1\<rparr>)
        (on_message (env_up ''staff'') 0 staff7 (Some group_to_r1) (state0\<lparr>store := room_r1\<rparr>)))
      = map (\<lambda>u. (''user:'' @ u, m)) (filter (\<lambda>u. u \<noteq> userId staff7) [''7'', ''42'', ''43''])"
    by blast
  then have "map fst (published (new_events (state0\<lparr>store := room_r1\<rparr>)
        (on_message (env_up ''staff'') 0 staff7 (Some group_to_r1) (state0\<lparr>store := room_r1\<rparr>))))
     = [''user:42'', ''user:43'']"
    by (simp add: staff7_def)
  with a b c show ?thesis by simp
qed

text \<open>
  C6. On the group path nothing is written to the document store: the frame of the
  staff member 7 to the room \<open>r1\<close> is published to the members 42 and 43, the trace
  holds no write, and the publishes are not preceded by one.
\<close>

theorem C6_group_publish_without_write:
  "trace (on_message (env_up ''staff'') 0 staff7 (Some group_to_r1) (state0\<lparr>store := room_r1\<rparr>)) =
     [Publish ''user:42'' (fst (group_message (env_up ''staff'') 0 staff7 group_to_r1
                                  [''7'', ''42'', ''43''] (state0\<lparr>store := room_r1\<rparr>))),
      Publish ''user:43'' (fst (group_message (env_up ''staff'') 0 staff7 group_to_r1
                                  [''7'', ''42'', ''43''] (state0\<lparr>store := room_r1\<rparr>))),
      Send group_message_sent]
   \<and> persisted (trace (on_message (env_up ''staff'') 0 staff7 (Some group_to_r1)
                          (state0\<lparr>store := room_r1\<rparr>))) = []
   \<and> \<not> persisted_before_publish []
          (trace (on_message (env_up ''staff'') 0 staff7 (Some group_to_r1)
                    (state0\<lparr>store := room_r1\<rparr>)))"
proof -
  have a: "f_type group_to_r1 = ''group''" by (simp add: group_to_r1_def)
  have c: "getUsersInRoom (store (state0\<lparr>store := room_r1\<rparr>)) 0 (recipientId group_to_r1)
             = Inr [''7'', ''42'', ''43'']"
    by (simp add: group_to_r1_def room_r1_members)
  show ?thesis
    unfolding on_message_group_trace [OF a c] by (simp add: staff7_def state0_def)
qed

section \<open>Properties of the validation service\<close>

lemma validate_cached_valid:
  "get (store st) now (service_key sid tid) = Inr (Some ''valid'') \<Longrightarrow>
   validateServiceViaGateway ev now sid tid st =
     (Inr \<lparr>sv_isValid = True, sv_error = None, sv_tenantId = Some tid\<rparr>, st)"
  by (simp add: validateServiceViaGateway_def)

lemma validate_cached_invalid:
  "get (store st) now (service_key sid tid) = Inr (Some ''invalid'') \<Longrightarrow>
   validateServiceViaGateway ev now sid tid st =
     (Inr \<lparr>sv_isValid = False, sv_error = Some ''Service authentication failed'',
           sv_tenantId = None\<rparr>, st)"
  by (simp add: validateServiceViaGateway_def)

lemma validate_miss:
  assumes "get (store st) now (service_key sid tid) = Inr c"
    and "c \<noteq> Some ''valid''" and "c \<noteq> Some ''invalid''"
  shows "\<exists>r. validateServiceViaGateway ev now sid tid st =
           (Inr r,
            st\<lparr>trace := trace st @ [GatewayCall sid tid],
               store := setEx (store st) now (service_key sid tid)
                          (if gateway_confirms (axios ev (validate_request ev sid tid))
                           then 600 else 300)
                          (if gateway_confirms (axios ev (validate_request ev sid tid))
                           then ''valid'' else ''invalid'')\<rparr>)
         \<and> sv_isValid r = gateway_confirms (axios ev (validate_request ev sid tid))"
  using assms
  by (cases "axios ev (validate_request ev sid tid)")
     (simp_all add: validateServiceViaGateway_def gateway_confirms_def emit_def Let_def)

text \<open>
  C9. A service validation whose result is in the cache, valid or invalid, returns that
  result and leaves the state as it is: no call of the gateway is made. On a cache miss
  the gateway is called once; a confirmation is cached as \<open>valid\<close> for 600 seconds, and
  any other answer or an error of the call is cached as \<open>invalid\<close> for 300 seconds.
\<close>

theorem C9_service_validation_cache:
  "(get (store st) now (service_key sid tid) = Inr (Some ''valid'') \<longrightarrow>
      validateServiceViaGateway ev now sid tid st =
        (Inr \<lparr>sv_isValid = True, sv_error = None, sv_tenantId = Some tid\<rparr>, st))
   \<and> (get (store st) now (service_key sid tid) = Inr (Some ''invalid'') \<longrightarrow>
      validateServiceViaGateway ev now sid tid st =
        (Inr \<lparr>sv_isValid = False, sv_error = Some ''Service authentication failed'',
              sv_tenantId = None\<rparr>, st))
   \<and> (get (store st) now (service_key sid tid) = Inr None \<longrightarrow>
      (\<exists>r st'. validateServiceViaGateway ev now sid tid st = (Inr r, st')
         \<and> trace st' = trace st @ [GatewayCall sid tid]
         \<and> (if gateway_confirms (axios ev (validate_request ev sid tid))
            then sv_isValid r \<and>
                 store st' (service_key sid tid) = Some (RString ''valid'', Some (now + 600))
            else \<not> sv_isValid r \<and>
                 store st' (service_key sid tid) = Some (RString ''invalid'', Some (now + 300)))))"
proof (intro conjI impI)
  assume "get (store st) now (service_key sid tid) = Inr None"
  from validate_miss [OF this, of ev]
  obtain r where r: "validateServiceViaGateway ev now sid tid st =
           (Inr r,
            st\<lparr>trace := trace st @ [GatewayCall sid tid],
               store := setEx (store st) now (service_key sid tid)
                          (if gateway_confirms (axios ev (validate_request ev sid tid))
                           then 600 else 300)
                          (if gateway_confirms (axios ev (validate_request ev sid tid))
                           then ''valid'' else ''invalid'')\<rparr>)"
    and v: "sv_isValid r = gateway_confirms (axios ev (validate_request ev sid tid))"
    by auto
  show "\<exists>r st'. validateServiceViaGateway ev now sid tid st = (Inr r, st')
         \<and> trace st' = trace st @ [GatewayCall sid tid]
         \<and> (if gateway_confirms (axios ev (validate_request ev sid tid))
            then sv_isValid r \<and>
                 store st' (service_key sid tid) = Some (RString ''valid'', Some (now + 600))
            else \<not> sv_isValid r \<and>
                 store st' (service_key sid tid) = Some (RString ''invalid'', Some (now + 300)))"
    unfolding r using v by (simp add: setEx_def)
qed (simp_all add: validate_cached_valid validate_cached_invalid)

text \<open>
  After a miss at time \<open>now\<close> that the gateway did not confirm, the same check is
  answered from the cache while fewer than 300 seconds have passed, and goes to the
  gateway again afterwards.
\<close>

lemma negative_cache_window:
  assumes "get (store st) now (service_key sid tid) = Inr None"
    and "\<not> gateway_confirms (axios ev (validate_request ev sid tid))"
    and "validateServiceViaGateway ev now sid tid st = (r, st')"
  shows "get (store st') later (service_key sid tid) =
           (if later < now + 300 then Inr (Some ''invalid'') else Inr None)"
proof -
  from validate_miss [OF assms(1), of ev] assms(2,3)
  have "store st' = setEx (store st) now (service_key sid tid) 300 ''invalid''"
    by auto
  then show ?thesis by (simp add: get_def live_def setEx_def)
qed

lemma gateway_up: "gateway_confirms (axios (env_up ''staff'') (validate_request (env_up ''staff'') ''athena'' ''t1''))"
  by (simp add: gateway_confirms_def env_up_def user_with_role_def)

lemma gateway_down: "\<not> gateway_confirms (axios env_down (validate_request env_down ''athena'' ''t1''))"
  by (simp add: gateway_confirms_def env_down_def)

theorem C9_service_validation_cache_witness:
  "get (store state0) 0 (service_key ''athena'' ''t1'') = Inr None
   \<and> trace (snd (validateServiceViaGateway (env_up ''staff'') 0 ''athena'' ''t1'' state0))
       = [GatewayCall ''athena'' ''t1'']
   \<and> get (store (snd (validateServiceViaGateway (env_up ''staff'') 0 ''athena'' ''t1'' state0)))
         10 (service_key ''athena'' ''t1'') = Inr (Some ''valid'')
   \<and> validateServiceViaGateway env_down 10 ''athena'' ''t1''
         (snd (validateServiceViaGateway (env_up ''staff'') 0 ''athena'' ''t1'' state0))
       = (Inr \<lparr>sv_isValid = True, sv_error = None, sv_tenantId = Some ''t1''\<rparr>,
          snd (validateServiceViaGateway (env_up ''staff'') 0 ''athena'' ''t1'' state0))
   \<and> get (store (snd (validateServiceViaGateway env_down 0 ''athena'' ''t1'' state0)))
         10 (service_key ''athena'' ''t1'') = Inr (Some ''invalid'')
   \<and> validateServiceViaGateway (env_up ''staff'') 10 ''athena'' ''t1''
         (snd (validateServiceViaGateway env_down 0 ''athena'' ''t1'' state0))
       = (Inr \<lparr>sv_isValid = False, sv_error = Some ''Service authentication failed'',
               sv_tenantId = None\<rparr>,
          snd (validateServiceViaGateway env_down 0 ''athena'' ''t1'' state0))"
proof -
  have h0: "get (store state0) 0 (service_key ''athena'' ''t1'') = Inr None"
    by (simp add: get_def live_def state0_def)
  from C9_service_validation_cache [of state0 0 "''athena''" "''t1''" "env_up ''staff''"] h0 gateway_up
  obtain r1 s1 where
    e1: "validateServiceViaGateway (env_up ''staff'') 0 ''athena'' ''t1'' state0 = (Inr r1, s1)"
    and t1: "trace s1 = trace state0 @ [GatewayCall ''athena'' ''t1'']"
    and k1: "store s1 (service_key ''athena'' ''t1'') = Some (RString ''valid'', Some (0 + 600))"
    by auto
  have g1: "get (store s1) 10 (service_key ''athena'' ''t1'') = Inr (Some ''valid'')"
    using k1 by (simp add: get_def live_def)
  from C9_service_validation_cache [of s1 10 "''athena''" "''t1''" env_down] g1
  have c1: "validateServiceViaGateway env_down 10 ''athena'' ''t1'' s1 =
              (Inr \<lparr>sv_isValid = True, sv_error = None, sv_tenantId = Some ''t1''\<rparr>, s1)"
    by simp
  from C9_service_validation_cache [of state0 0 "''athena''" "''t1''" env_down] h0 gateway_down
  obtain r2 s2 where
    e2: "validateServiceViaGateway env_down 0 ''athena'' ''t1'' state0 = (Inr r2, s2)"
    and k2: "store s2 (service_key ''athena'' ''t1'') = Some (RString ''invalid'', Some (0 + 300))"
    by auto
  have g2: "get (store s2) 10 (service_key ''athena'' ''t1'') = Inr (Some ''invalid'')"
    using k2 by (simp add: get_def live_def)
  from C9_service_validation_cache [of s2 10 "''athena''" "''t1''" "env_up ''staff''"] g2
  have c2: "validateServiceViaGateway (env_up ''staff'') 10 ''athena'' ''t1'' s2 =
              (Inr \<lparr>sv_isValid = False, sv_error = Some ''Service authentication failed'',
                    sv_tenantId = None\<rparr>, s2)"
    by simp
  have t1': "trace s1 = [GatewayCall ''athena'' ''t1'']"
    using t1 by (simp add: state0_def)
  show ?thesis
    unfolding e1 e2 using h0 t1' g1 c1 g2 c2 by simp
qed

section \<open>Failure of the validation dependencies\<close>

lemma validate_not_confirmed:
  assumes "get (store st) now (service_key sid tid) = Inr c"
    and "c \<noteq> Some ''valid''"
    and "\<not> gateway_confirms (axios ev (validate_request ev sid tid))"
  shows "\<exists>r st'. validateServiceViaGateway ev now sid tid st = (Inr r, st') \<and> \<not> sv_isValid r"
proof (cases "c = Some ''invalid''")
  case True
  with assms(1) show ?thesis by (simp add: validate_cached_invalid)
next
  case False
  from validate_miss [OF assms(1,2) False, of ev] assms(3) show ?thesis by auto
qed

lemma identity_not_usable:
  "\<not> verify_usable (axios ev (verify_request ev tok)) \<Longrightarrow>
   \<not> isValid (validateUserIdentity ev usr tok)"
  by (auto simp add: verify_usable_def validateUserIdentity_def
      split: sum.splits option.splits error.splits)

lemma lookup_not_usable:
  "\<not> lookup_usable (axios ev (janus_request ev (''/api/v1/users/'' @ rid) (Some tok) ''GET'')) \<Longrightarrow>
   determineRecipientType ev rid tok = ''guardian''"
  by (auto simp add: lookup_usable_def determineRecipientType_def callJanusApi_def Let_def
      split: sum.splits option.splits error.splits)

text \<open>
  C7, as the code has it. When the gateway does not confirm a service that the cache
  does not hold as valid, the service validation is invalid; when the identity service
  gives no usable answer, the identity validation is invalid; when the role lookup
  gives no usable answer, the recipient is taken to be a guardian.
\<close>

theorem C7_validation_on_failure:
  "(get (store st) now (service_key sid tid) = Inr c \<and> c \<noteq> Some ''valid'' \<and>
    \<not> gateway_confirms (axios ev (validate_request ev sid tid)) \<longrightarrow>
      (\<exists>r st'. validateServiceViaGateway ev now sid tid st = (Inr r, st') \<and> \<not> sv_isValid r))
   \<and> (\<not> verify_usable (axios ev (verify_request ev tok)) \<longrightarrow>
        \<not> isValid (validateUserIdentity ev usr tok))
   \<and> (\<not> lookup_usable (axios ev (janus_request ev (''/api/v1/users/'' @ rid) (Some tok) ''GET'')) \<longrightarrow>
        determineRecipientType ev rid tok = ''guardian'')"
  using validate_not_confirmed [of st now sid tid c ev] identity_not_usable [of ev tok usr]
    lookup_not_usable [of ev rid tok]
  by blast

theorem C7_validation_on_failure_witness:
  "get (store state0) 0 (service_key ''athena'' ''t1'') = Inr None
   \<and> \<not> gateway_confirms (axios env_down (validate_request env_down ''athena'' ''t1''))
   \<and> \<not> verify_usable (axios env_down (verify_request env_down ''tok''))
   \<and> \<not> lookup_usable (axios env_down (janus_request env_down (''/api/v1/users/'' @ ''9'') (Some ''tok'') ''GET''))
   \<and> \<not> sv_isValid (projr (fst (validateServiceViaGateway env_down 0 ''athena'' ''t1'' state0)))
   \<and> isl (fst (validateServiceViaGateway env_down 0 ''athena'' ''t1'' state0)) = False
   \<and> \<not> isValid (validateUserIdentity env_down ''1'' ''tok'')
   \<and> determineRecipientType env_down ''9'' ''tok'' = ''guardian''"
proof -
  have h0: "get (store state0) 0 (service_key ''athena'' ''t1'') = Inr None"
    by (simp add: get_def live_def state0_def)
  have v: "\<not> verify_usable (axios env_down (verify_request env_down ''tok''))"
    by (simp add: verify_usable_def env_down_def)
  have l: "\<not> lookup_usable (axios env_down (janus_request env_down (''/api/v1/users/'' @ ''9'') (Some ''tok'') ''GET''))"
    by (simp add: lookup_usable_def env_down_def)
  from C7_validation_on_failure [of state0 0 "''athena''" "''t1''" None env_down "''tok''" "''1''" "''9''"]
    h0 gateway_down v l
  have "(\<exists>r st'. validateServiceViaGateway env_down 0 ''athena'' ''t1'' state0 = (Inr r, st') \<and> \<not> sv_isValid r)"
    and i: "\<not> isValid (validateUserIdentity env_down ''1'' ''tok'')"
    and g: "determineRecipientType env_down ''9'' ''tok'' = ''guardian''"
    by simp_all
  then obtain r st' where "validateServiceViaGateway env_down 0 ''athena'' ''t1'' state0 = (Inr r, st')"
    and "\<not> sv_isValid r" by blast
  then have s: "\<not> sv_isValid (projr (fst (validateServiceViaGateway env_down 0 ''athena'' ''t1'' state0)))"
    "isl (fst (validateServiceViaGateway env_down 0 ''athena'' ''t1'' state0)) = False"
    by simp_all
  from h0 gateway_down v l s i g show ?thesis by simp
qed

text \<open>
  C7 as stated fails for the role lookup. With the identity service out of reach, the
  role of user 9 is taken to be \<open>guardian\<close>, which the policy allows for every sender,
  and the director's message is written and published; with the service in reach and
  user 9 a student, the same frame is denied.
\<close>

theorem C7_permissive_default_counterexample:
  "\<not> lookup_usable (axios env_down (janus_request env_down (''/api/v1/users/'' @ ''9'') (Some ''tok'') ''GET''))
   \<and> determineRecipientType env_down ''9'' ''tok'' = ''guardian''
   \<and> canMessage (checkCommunicationPermissions ''1'' ''director'' ''9''
                   (determineRecipientType env_down ''9'' ''tok''))
   \<and> sent (trace (on_message env_down 0 director1 (Some direct_to_9) state0)) = [message_sent ''doc1'']
   \<and> map fst (published (trace (on_message env_down 0 director1 (Some direct_to_9) state0)))
       = [''user:9'']
   \<and> sent (trace (on_message (env_up ''student'') 0 director1 (Some direct_to_9) state0))
       = [error_frame ''Communication between Director and Student is not allowed'']"
proof -
  have l: "\<not> lookup_usable (axios env_down (janus_request env_down (''/api/v1/users/'' @ ''9'') (Some ''tok'') ''GET''))"
    by (simp add: lookup_usable_def env_down_def)
  have g: "determineRecipientType env_down ''9'' ''tok'' = ''guardian''"
    by (simp add: determineRecipientType_def callJanusApi_def env_down_def Let_def)
  have s: "determineRecipientType (env_up ''student'') ''9'' ''tok'' = ''student''"
    by (simp add: determineRecipientType_def callJanusApi_def env_up_def user_with_role_def Let_def)
  have c: "canMessage (checkCommunicationPermissions ''1'' ''director'' ''9'' ''guardian'')"
    by (simp add: checkCommunicationPermissions_def)
  have f: "firestore_add env_down = (\<lambda>m. Inr ''doc1'')" "uuidv7 env_down = (\<lambda>n. ''0190'')"
    by (simp_all add: env_down_def)
  have d: "on_message env_down 0 director1 (Some direct_to_9) state0 =
             (let m = \<lparr>id' = ''msg_0190'', senderId = ''1'', senderType = ''director'',
                       recipientIds = [''9''], tenantId = ''t1'', messageType = ''direct'',
                       content = ''See me'', subject = ''Direct Message'', mediaUrls = None,
                       msg_status = ''sent'', sentAt = 0\<rparr>
              in \<lparr>store = Map.empty,
                  trace = [SaveMessage m, Persist m, Publish ''user:9'' m,
                           Send (message_sent ''doc1'')],
                  uuids = 1\<rparr>)"
    by (simp add: on_message_def direct_to_9_def director1_def g sendDirectMessage_def
        checkCommunicationPermissions_def fresh_id_def save_then_publish_def publishToRoom_def
        emit_def state0_def media_or_def or_else_def Let_def f)
  have u: "on_message (env_up ''student'') 0 director1 (Some direct_to_9) state0 =
             emit (Send (error_frame ''Communication between Director and Student is not allowed'')) state0"
    by (simp add: on_message_def direct_to_9_def director1_def s sendDirectMessage_def
        checkCommunicationPermissions_def or_else_def Let_def)
  show ?thesis
    unfolding d u using l g c by (simp add: Let_def emit_def state0_def)
qed

section \<open>The type recorded on a message\<close>

lemma media_or_expected: "media_or urls t = expected_type urls t"
  by (cases "(urls, t)" rule: expected_type.cases) (simp_all add: media_or_def)

lemma messages_of_append [simp]: "messages_of (xs @ ys) = messages_of xs @ messages_of ys"
  by (induction xs rule: messages_of.induct) simp_all

lemma saved_append [simp]: "saved (xs @ ys) = saved xs @ saved ys"
  by (induction xs rule: saved.induct) simp_all

lemma messages_of_map_Publish [simp]: "messages_of (map (\<lambda>u. Publish (c u) m) us) = map (\<lambda>u. m) us"
  by (induction us) simp_all

lemma saved_in_messages_of: "set (saved es) \<subseteq> set (messages_of es)"
  by (induction es rule: messages_of.induct) auto

lemma new_events_append: "trace st' = trace st @ new \<Longrightarrow> new_events st st' = new"
  by (simp add: new_events_def)

text \<open>The policy never denies a recipient taken to be a guardian.\<close>

lemma guardian_allowed: "canMessage (checkCommunicationPermissions a s x ''guardian'')"
  by (simp add: checkCommunicationPermissions_def)

text \<open>
  What each send path adds to the trace: the messages it hands to the document store,
  one for every send the path accepts, whether or not the write returns.
\<close>

lemma sendDirectMessage_new:
  "\<exists>new. trace (snd (sendDirectMessage ev now a s b r tenant subj cont urls st)) = trace st @ new
         \<and> (\<forall>m \<in> set (messages_of new).
               messageType m = media_or urls ''direct'' \<and> mediaUrls m = urls)
         \<and> map messageType (saved new) =
             (if canMessage (checkCommunicationPermissions a s b r)
              then [media_or urls ''direct''] else [])"
  by (auto simp add: sendDirectMessage_def Let_def fresh_id_def save_then_publish_def
      publishToRoom_def emit_def split: sum.splits)

lemma sendDailyNote_new:
  "\<exists>new. trace (snd (sendDailyNote ev now a s g stu tenant subj cont urls st)) = trace st @ new
         \<and> (\<forall>m \<in> set (messages_of new).
               messageType m = media_or urls ''daily-note'' \<and> mediaUrls m = urls)
         \<and> map messageType (saved new) =
             (if s = ''staff'' \<or> s = ''director'' then [media_or urls ''daily-note''] else [])"
  by (auto simp add: sendDailyNote_def Let_def fresh_id_def save_then_publish_def
      publishToRoom_def emit_def split: sum.splits)

lemma sendAnnouncement_loop_new:
  "\<exists>new. trace (snd (sendAnnouncement_loop ev now a s tenant subj cont urls rs ids st))
           = trace st @ new
         \<and> (\<forall>m \<in> set (messages_of new).
               messageType m = media_or urls ''announcement'' \<and> mediaUrls m = urls)
         \<and> map messageType (saved new) = map (\<lambda>x. media_or urls ''announcement'') rs
         \<and> map recipientIds (saved new) = map (\<lambda>x. [x]) rs"
proof (induction rs arbitrary: ids st)
  case Nil
  show ?case by simp
next
  case (Cons x rs)
  let ?st1 = "st\<lparr>uuids := uuids st + 1\<rparr>"
  let ?m = "\<lparr>id' = ''msg_'' @ uuidv7 ev (uuids st), senderId = a, senderType = s,
             recipientIds = [x], tenantId = tenant,
             messageType = media_or urls ''announcement'',
             content = cont, subject = subj, mediaUrls = urls,
             msg_status = ''sent'', sentAt = now\<rparr>"
  let ?st2 = "emit (SaveMessage ?m) ?st1"
  show ?case
  proof (cases "firestore_add ev ?m")
    case (Inl e)
    from Cons.IH [of ids ?st2]
    obtain new where n: "trace (snd (sendAnnouncement_loop ev now a s tenant subj cont urls rs
                                      ids ?st2)) = trace ?st2 @ new"
      and t: "\<forall>m \<in> set (messages_of new).
                messageType m = media_or urls ''announcement'' \<and> mediaUrls m = urls"
      and k: "map messageType (saved new) = map (\<lambda>x. media_or urls ''announcement'') rs"
      and q: "map recipientIds (saved new) = map (\<lambda>x. [x]) rs"
      by blast
    have "trace ?st2 = trace st @ [SaveMessage ?m]"
      by (simp add: emit_def)
    with n t k q Inl show ?thesis
      by (intro exI [of _ "[SaveMessage ?m] @ new"])
         (simp add: guardian_allowed fresh_id_def save_then_publish_def Let_def)
  next
    case (Inr d)
    let ?st3 = "publishToRoom (''user:'' @ x) ?m (emit (Persist ?m) ?st2)"
    from Cons.IH [of "ids @ [d]" ?st3]
    obtain new where n: "trace (snd (sendAnnouncement_loop ev now a s tenant subj cont urls rs
                                      (ids @ [d]) ?st3)) = trace ?st3 @ new"
      and t: "\<forall>m \<in> set (messages_of new).
                messageType m = media_or urls ''announcement'' \<and> mediaUrls m = urls"
      and k: "map messageType (saved new) = map (\<lambda>x. media_or urls ''announcement'') rs"
      and q: "map recipientIds (saved new) = map (\<lambda>x. [x]) rs"
      by blast
    have "trace ?st3 = trace st @ [SaveMessage ?m, Persist ?m, Publish (''user:'' @ x) ?m]"
      by (simp add: publishToRoom_def emit_def)
    with n t k q Inr show ?thesis
      by (intro exI [of _ "[SaveMessage ?m, Persist ?m, Publish (''user:'' @ x) ?m] @ new"])
         (simp add: guardian_allowed fresh_id_def save_then_publish_def Let_def)
  qed
qed

lemma sendAnnouncement_new:
  "\<exists>new. trace (snd (sendAnnouncement ev now a s tenant rs subj cont urls st)) = trace st @ new
         \<and> (\<forall>m \<in> set (messages_of new).
               messageType m = media_or urls ''announcement'' \<and> mediaUrls m = urls)
         \<and> map messageType (saved new) = map (\<lambda>x. media_or urls ''announcement'') rs
         \<and> map recipientIds (saved new) = map (\<lambda>x. [x]) rs"
  using sendAnnouncement_loop_new [of ev now a s tenant subj cont urls rs "[]" st]
  by (cases "sendAnnouncement_loop ev now a s tenant subj cont urls rs [] st")
     (simp add: sendAnnouncement_def)

lemma group_message_type:
  "messageType (fst (group_message ev now ws f roomUsers st)) = media_or (f_mediaUrls f) ''group''
   \<and> mediaUrls (fst (group_message ev now ws f roomUsers st)) = f_mediaUrls f"
  by (simp add: group_message_def fresh_id_def Let_def)

lemma group_new:
  assumes "f_type f = ''group''"
  shows "\<exists>new. trace (on_message ev now ws (Some f) st) = trace st @ new
         \<and> (\<forall>m \<in> set (messages_of new).
               messageType m = media_or (f_mediaUrls f) ''group'' \<and> mediaUrls m = f_mediaUrls f)"
proof (cases "getUsersInRoom (store st) now (recipientId f)")
  case (Inl e)
  with assms show ?thesis by (simp add: on_message_def emit_def)
next
  case (Inr members)
  show ?thesis
    unfolding on_message_group_trace [OF assms Inr]
    by (simp add: group_message_type)
qed

lemma group_published:
  assumes "f_type f = ''group''"
    and "getUsersInRoom (store st) now (recipientId f) = Inr members"
  shows "map snd (published (new_events st (on_message ev now ws (Some f) st)))
           = map (\<lambda>u. fst (group_message ev now ws f members st))
                 (filter (\<lambda>u. u \<noteq> userId ws) members)"
  by (simp add: new_events_def on_message_group_trace [OF assms] published_map_Publish comp_def)

text \<open>
  C10. Every message the core builds carries the type \<open>media\<close> when its list of media
  addresses is not empty, and the type of its send path when the list is absent or
  empty. The direct path builds one message for a send the policy allows, the
  announcement path one for every recipient, the daily-note path one for a sender who is
  staff or director, and each is handed to the document store with that type, whether
  or not the write returns; the group path builds one envelope with that type and
  publishes it to the other members. No message with another type is handed to the
  store, written or published on these paths.
\<close>

theorem C10_message_type:
  "map messageType (saved (new_events st
       (snd (sendDirectMessage ev now a s b r tenant subj cont urls st))))
     = (if canMessage (checkCommunicationPermissions a s b r)
        then [expected_type urls ''direct''] else [])
   \<and> (\<forall>m \<in> set (messages_of (new_events st
                (snd (sendDirectMessage ev now a s b r tenant subj cont urls st)))).
        messageType m = expected_type (mediaUrls m) ''direct'' \<and> mediaUrls m = urls)
   \<and> map messageType (saved (new_events st
         (snd (sendAnnouncement ev now a s tenant rs subj cont urls st))))
       = map (\<lambda>x. expected_type urls ''announcement'') rs
   \<and> map recipientIds (saved (new_events st
         (snd (sendAnnouncement ev now a s tenant rs subj cont urls st))))
       = map (\<lambda>x. [x]) rs
   \<and> (\<forall>m \<in> set (messages_of (new_events st
                (snd (sendAnnouncement ev now a s tenant rs subj cont urls st)))).
        messageType m = expected_type (mediaUrls m) ''announcement'' \<and> mediaUrls m = urls)
   \<and> map messageType (saved (new_events st
         (snd (sendDailyNote ev now a s g stu tenant subj cont urls st))))
       = (if s = ''staff'' \<or> s = ''director''
          then [expected_type urls ''daily-note''] else [])
   \<and> (\<forall>m \<in> set (messages_of (new_events st
                (snd (sendDailyNote ev now a s g stu tenant subj cont urls st)))).
        messageType m = expected_type (mediaUrls m) ''daily-note'' \<and> mediaUrls m = urls)
   \<and> messageType (fst (group_message ev now ws f roomUsers st))
       = expected_type (mediaUrls (fst (group_message ev now ws f roomUsers st))) ''group''
   \<and> mediaUrls (fst (group_message ev now ws f roomUsers st)) = f_mediaUrls f
   \<and> (f_type f = ''group'' \<and> getUsersInRoom (store st) now (recipientId f) = Inr members \<longrightarrow>
        map snd (published (new_events st (on_message ev now ws (Some f) st)))
          = map (\<lambda>u. fst (group_message ev now ws f members st))
                (filter (\<lambda>u. u \<noteq> userId ws) members))
   \<and> (f_type f = ''group'' \<longrightarrow>
        (\<forall>m \<in> set (messages_of (new_events st (on_message ev now ws (Some f) st))).
           messageType m = expected_type (mediaUrls m) ''group'' \<and> mediaUrls m = f_mediaUrls f))"
proof -
  from sendDirectMessage_new [of ev now a s b r tenant subj cont urls st]
  have d: "map messageType (saved (new_events st
       (snd (sendDirectMessage ev now a s b r tenant subj cont urls st))))
     = (if canMessage (checkCommunicationPermissions a s b r)
        then [expected_type urls ''direct''] else [])"
    and d': "\<forall>m \<in> set (messages_of (new_events st
                (snd (sendDirectMessage ev now a s b r tenant subj cont urls st)))).
        messageType m = expected_type (mediaUrls m) ''direct'' \<and> mediaUrls m = urls"
    by (auto simp add: new_events_def media_or_expected)
  from sendAnnouncement_new [of ev now a s tenant rs subj cont urls st]
  have n: "map messageType (saved (new_events st
         (snd (sendAnnouncement ev now a s tenant rs subj cont urls st))))
       = map (\<lambda>x. expected_type urls ''announcement'') rs"
    and n': "map recipientIds (saved (new_events st
         (snd (sendAnnouncement ev now a s tenant rs subj cont urls st))))
       = map (\<lambda>x. [x]) rs"
    and n'': "\<forall>m \<in> set (messages_of (new_events st
                (snd (sendAnnouncement ev now a s tenant rs subj cont urls st)))).
        messageType m = expected_type (mediaUrls m) ''announcement'' \<and> mediaUrls m = urls"
    by (auto simp add: new_events_def media_or_expected)
  from sendDailyNote_new [of ev now a s g stu tenant subj cont urls st]
  have y: "map messageType (saved (new_events st
         (snd (sendDailyNote ev now a s g stu tenant subj cont urls st))))
       = (if s = ''staff'' \<or> s = ''director''
          then [expected_type urls ''daily-note''] else [])"
    and y': "\<forall>m \<in> set (messages_of (new_events st
                (snd (sendDailyNote ev now a s g stu tenant subj cont urls st)))).
        messageType m = expected_type (mediaUrls m) ''daily-note'' \<and> mediaUrls m = urls"
    by (auto simp add: new_events_def media_or_expected)
  have e: "messageType (fst (group_message ev now ws f roomUsers st))
       = expected_type (mediaUrls (fst (group_message ev now ws f roomUsers st))) ''group''"
    and e': "mediaUrls (fst (group_message ev now ws f roomUsers st)) = f_mediaUrls f"
    by (simp_all add: group_message_type media_or_expected)
  have p: "f_type f = ''group'' \<and> getUsersInRoom (store st) now (recipientId f) = Inr members \<longrightarrow>
        map snd (published (new_events st (on_message ev now ws (Some f) st)))
          = map (\<lambda>u. fst (group_message ev now ws f members st))
                (filter (\<lambda>u. u \<noteq> userId ws) members)"
    using group_published by blast
  have q: "f_type f = ''group'' \<longrightarrow>
        (\<forall>m \<in> set (messages_of (new_events st (on_message ev now ws (Some f) st))).
           messageType m = expected_type (mediaUrls m) ''group'' \<and> mediaUrls m = f_mediaUrls f)"
  proof
    assume "f_type f = ''group''"
    from group_new [OF this, of ev now ws st]
    show "\<forall>m \<in> set (messages_of (new_events st (on_message ev now ws (Some f) st))).
           messageType m = expected_type (mediaUrls m) ''group'' \<and> mediaUrls m = f_mediaUrls f"
      by (auto simp add: new_events_def media_or_expected)
  qed
  from d d' n n' n'' y y' e e' p q show ?thesis by blast
qed

theorem C10_message_type_witness:
  "map messageType (saved (new_events state0
       (snd (sendDirectMessage env_nostore 0 ''7'' ''staff'' ''42'' ''guardian'' ''t1''
               ''Photos'' ''Sports day'' (Some [''https://cdn/p1.jpg'']) state0)))) = [''media'']
   \<and> list_all (\<lambda>m. messageType m = ''media'')
        (messages_of (new_events state0
          (snd (sendDirectMessage env_nostore 0 ''7'' ''staff'' ''42'' ''guardian'' ''t1''
                  ''Photos'' ''Sports day'' (Some [''https://cdn/p1.jpg'']) state0))))
   \<and> map messageType (saved (new_events state0
         (snd (sendDirectMessage env_nostore 0 ''1'' ''director'' ''9'' ''student'' ''t1''
                 ''Note'' ''See me'' None state0)))) = []
   \<and> map messageType (saved (new_events state0
         (snd (sendAnnouncement env_nostore 0 ''7'' ''staff'' ''t1'' [''42'', ''43'']
                 ''Trip'' ''On Friday'' None state0)))) = [''announcement'', ''announcement'']
   \<and> map recipientIds (saved (new_events state0
         (snd (sendAnnouncement env_nostore 0 ''7'' ''staff'' ''t1'' [''42'', ''43'']
                 ''Trip'' ''On Friday'' None state0)))) = [[''42''], [''43'']]
   \<and> list_all (\<lambda>m. messageType m = ''announcement'')
        (messages_of (new_events state0
          (snd (sendAnnouncement env_nostore 0 ''7'' ''staff'' ''t1'' [''42'', ''43'']
                  ''Trip'' ''On Friday'' None state0))))
   \<and> map messageType (saved (new_events state0
         (snd (sendDailyNote (env_up ''guardian'') 0 ''7'' ''staff'' ''42'' ''9'' ''t1''
                 ''Today'' ''A good day'' (Some [''https://cdn/p2.jpg'']) state0)))) = [''media'']
   \<and> map messageType (saved (new_events state0
         (snd (sendDailyNote (env_up ''guardian'') 0 ''7'' ''staff'' ''42'' ''9'' ''t1''
                 ''Today'' ''A good day'' (Some []) state0)))) = [''daily-note'']
   \<and> list_all (\<lambda>m. messageType m = ''daily-note'')
        (messages_of (new_events state0
          (snd (sendDailyNote (env_up ''guardian'') 0 ''7'' ''staff'' ''42'' ''9'' ''t1''
                  ''Today'' ''A good day'' (Some []) state0))))
   \<and> map messageType (saved (new_events state0
         (snd (sendDailyNote (env_up ''guardian'') 0 ''42'' ''guardian'' ''43'' ''9'' ''t1''
                 ''Today'' ''A good day'' None state0)))) = []
   \<and> f_type group_to_r1 = ''group''
   \<and> getUsersInRoom (store (state0\<lparr>store := room_r1\<rparr>)) 0 (recipientId group_to_r1)
       = Inr [''7'', ''42'', ''43'']
   \<and> map messageType (map snd (published (new_events (state0\<lparr>store := room_r1\<rparr>)
        (on_message (env_up ''staff'') 0 staff7 (Some group_to_r1) (state0\<lparr>store := room_r1\<rparr>)))))
       = [''group'', ''group'']
   \<and> list_all (\<lambda>m. messageType m = ''group'')
        (messages_of (new_events (state0\<lparr>store := room_r1\<rparr>)
          (on_message (env_up ''staff'') 0 staff7 (Some group_to_r1) (state0\<lparr>store := room_r1\<rparr>))))"
proof -
  note direct = C10_message_type [where st = state0 and ev = env_nostore and now = 0
      and a = "''7''" and s = "''staff''" and b = "''42''" and r = "''guardian''"
      and tenant = "''t1''" and subj = "''Photos''" and cont = "''Sports day''"
      and urls = "Some [''https://cdn/p1.jpg'']"]
  have d1: "map messageType (saved (new_events state0
       (snd (sendDirectMessage env_nostore 0 ''7'' ''staff'' ''42'' ''guardian'' ''t1''
               ''Photos'' ''Sports day'' (Some [''https://cdn/p1.jpg'']) state0)))) = [''media'']"
    using direct by (simp add: checkCommunicationPermissions_def)
  have d2: "list_all (\<lambda>m. messageType m = ''media'')
        (messages_of (new_events state0
          (snd (sendDirectMessage env_nostore 0 ''7'' ''staff'' ''42'' ''guardian'' ''t1''
                  ''Photos'' ''Sports day'' (Some [''https://cdn/p1.jpg'']) state0))))"
    using direct by (simp add: list_all_iff)
  have d3: "map messageType (saved (new_events state0
         (snd (sendDirectMessage env_nostore 0 ''1'' ''director'' ''9'' ''student'' ''t1''
                 ''Note'' ''See me'' None state0)))) = []"
    using C10_message_type [where st = state0 and ev = env_nostore and now = 0
      and a = "''1''" and s = "''director''" and b = "''9''" and r = "''student''"
      and tenant = "''t1''" and subj = "''Note''" and cont = "''See me''" and urls = None]
    by (simp add: checkCommunicationPermissions_def)
  note announce = C10_message_type [where st = state0 and ev = env_nostore and now = 0
      and a = "''7''" and s = "''staff''" and tenant = "''t1''" and rs = "[''42'', ''43'']"
      and subj = "''Trip''" and cont = "''On Friday''" and urls = None]
  have n1: "map messageType (saved (new_events state0
         (snd (sendAnnouncement env_nostore 0 ''7'' ''staff'' ''t1'' [''42'', ''43'']
                 ''Trip'' ''On Friday'' None state0)))) = [''announcement'', ''announcement'']"
    using announce by simp
  have n2: "map recipientIds (saved (new_events state0
         (snd (sendAnnouncement env_nostore 0 ''7'' ''staff'' ''t1'' [''42'', ''43'']
                 ''Trip'' ''On Friday'' None state0)))) = [[''42''], [''43'']]"
    using announce by simp
  have n3: "list_all (\<lambda>m. messageType m = ''announcement'')
        (messages_of (new_events state0
          (snd (sendAnnouncement env_nostore 0 ''7'' ''staff'' ''t1'' [''42'', ''43'']
                  ''Trip'' ''On Friday'' None state0))))"
    using announce by (simp add: list_all_iff)
  have y1: "map messageType (saved (new_events state0
         (snd (sendDailyNote (env_up ''guardian'') 0 ''7'' ''staff'' ''42'' ''9'' ''t1''
                 ''Today'' ''A good day'' (Some [''https://cdn/p2.jpg'']) state0)))) = [''media'']"
    using C10_message_type [where st = state0 and ev = "env_up ''guardian''" and now = 0
      and a = "''7''" and s = "''staff''" and g = "''42''" and stu = "''9''"
      and tenant = "''t1''" and subj = "''Today''" and cont = "''A good day''"
      and urls = "Some [''https://cdn/p2.jpg'']"]
    by simp
  note daily = C10_message_type [where st = state0 and ev = "env_up ''guardian''" and now = 0
      and a = "''7''" and s = "''staff''" and g = "''42''" and stu = "''9''"
      and tenant = "''t1''" and subj = "''Today''" and cont = "''A good day''"
      and urls = "Some []"]
  have y2: "map messageType (saved (new_events state0
         (snd (sendDailyNote (env_up ''guardian'') 0 ''7'' ''staff'' ''42'' ''9'' ''t1''
                 ''Today'' ''A good day'' (Some []) state0)))) = [''daily-note'']"
    using daily by simp
  have y3: "list_all (\<lambda>m. messageType m = ''daily-note'')
        (messages_of (new_events state0
          (snd (sendDailyNote (env_up ''guardian'') 0 ''7'' ''staff'' ''42'' ''9'' ''t1''
                  ''Today'' ''A good day'' (Some []) state0))))"
    using daily by (simp add: list_all_iff)
  have y4: "map messageType (saved (new_events state0
         (snd (sendDailyNote (env_up ''guardian'') 0 ''42'' ''guardian'' ''43'' ''9'' ''t1''
                 ''Today'' ''A good day'' None state0)))) = []"
    using C10_message_type [where st = state0 and ev = "env_up ''guardian''" and now = 0
      and a = "''42''" and s = "''guardian''" and g = "''43''" and stu = "''9''"
      and tenant = "''t1''" and subj = "''Today''" and cont = "''A good day''" and urls = None]
    by simp
  have a: "f_type group_to_r1 = ''group''" by (simp add: group_to_r1_def)
  have u: "f_mediaUrls group_to_r1 = None" by (simp add: group_to_r1_def)
  have c: "getUsersInRoom (store (state0\<lparr>store := room_r1\<rparr>)) 0 (recipientId group_to_r1)
             = Inr [''7'', ''42'', ''43'']"
    by (simp add: group_to_r1_def room_r1_members)
  note group = C10_message_type [where st = "state0\<lparr>store := room_r1\<rparr>" and ev = "env_up ''staff''"
      and now = 0 and ws = staff7 and f = group_to_r1 and roomUsers = "[''7'', ''42'', ''43'']"
      and members = "[''7'', ''42'', ''43'']"]
  have g0: "messageType (fst (group_message (env_up ''staff'') 0 staff7 group_to_r1
                               [''7'', ''42'', ''43''] (state0\<lparr>store := room_r1\<rparr>))) = ''group''"
    using group u by simp
  have g1: "map snd (published (new_events (state0\<lparr>store := room_r1\<rparr>)
        (on_message (env_up ''staff'') 0 staff7 (Some group_to_r1) (state0\<lparr>store := room_r1\<rparr>))))
       = map (\<lambda>u. fst (group_message (env_up ''staff'') 0 staff7 group_to_r1
                          [''7'', ''42'', ''43''] (state0\<lparr>store := room_r1\<rparr>)))
             (filter (\<lambda>u. u \<noteq> userId staff7) [''7'', ''42'', ''43''])"
    using group a c by blast
  have g2: "map messageType (map snd (published (new_events (state0\<lparr>store := room_r1\<rparr>)
        (on_message (env_up ''staff'') 0 staff7 (Some group_to_r1) (state0\<lparr>store := room_r1\<rparr>)))))
       = [''group'', ''group'']"
    unfolding g1 using g0 by (simp add: staff7_def)
  have g3: "list_all (\<lambda>m. messageType m = ''group'')
        (messages_of (new_events (state0\<lparr>store := room_r1\<rparr>)
          (on_message (env_up ''staff'') 0 staff7 (Some group_to_r1) (state0\<lparr>store := room_r1\<rparr>))))"
    using group a u by (simp add: list_all_iff)
  from d1 d2 d3 n1 n2 n3 y1 y2 y3 y4 a c g2 g3 show ?thesis by simp
qed


section \<open>The store invariant and the idle consumer\<close>

text \<open>
  The writes of the code keep every set of the store free of repetitions, starting from
  the empty store; this is the invariant assumed of the store on the group path.
\<close>

lemma sets_distinct_empty: "sets_distinct Map.empty"
  by (simp add: sets_distinct_def)

lemma sets_distinct_upd:
  "sets_distinct st \<Longrightarrow> (\<And>xs. v = RSet xs \<Longrightarrow> distinct xs) \<Longrightarrow>
   sets_distinct (st(k \<mapsto> (v, e)))"
  by (auto simp add: sets_distinct_def)

lemma sets_distinct_setEx: "sets_distinct st \<Longrightarrow> sets_distinct (setEx st now k n v)"
  unfolding setEx_def by (rule sets_distinct_upd) simp_all

lemma live_RSet:
  "sets_distinct st \<Longrightarrow> live st now k = Some (RSet xs) \<Longrightarrow> distinct xs"
proof -
  assume inv: "sets_distinct st" and l: "live st now k = Some (RSet xs)"
  from l obtain e where "st k = Some (RSet xs, e)"
    by (auto simp add: live_def split: option.splits if_splits)
  with inv show "distinct xs" unfolding sets_distinct_def by blast
qed

lemma sets_distinct_expire: "sets_distinct st \<Longrightarrow> sets_distinct (expire st now k n)"
proof -
  assume inv: "sets_distinct st"
  show ?thesis
  proof (cases "live st now k")
    case None
    with inv show ?thesis by (simp add: expire_def)
  next
    case (Some v)
    have "\<And>xs. v = RSet xs \<Longrightarrow> distinct xs"
      using Some inv live_RSet by blast
    with inv Some show ?thesis
      by (simp add: expire_def sets_distinct_upd)
  qed
qed

lemma sets_distinct_sAdd:
  assumes "sets_distinct st" and "sAdd st now k m = Inr st'"
  shows "sets_distinct st'"
proof (cases "live st now k")
  case None
  with assms show ?thesis by (auto simp add: sAdd_def intro: sets_distinct_upd)
next
  case (Some v)
  show ?thesis
  proof (cases v)
    case (RSet xs)
    have "distinct xs"
      using Some RSet assms(1) live_RSet by blast
    with assms Some RSet show ?thesis
      by (auto simp add: sAdd_def intro: sets_distinct_upd)
  qed (use assms Some in \<open>simp_all add: sAdd_def\<close>)
qed

lemma sets_distinct_addUserToRoom:
  "sets_distinct st \<Longrightarrow> addUserToRoom usr room n now st = Inr st' \<Longrightarrow> sets_distinct st'"
  by (auto simp add: addUserToRoom_def split: sum.splits
      intro!: sets_distinct_setEx sets_distinct_expire dest: sets_distinct_sAdd)

lemma sets_distinct_storeSession:
  "sets_distinct st \<Longrightarrow> sets_distinct (storeSession sid usr tid n now st)"
  by (simp add: storeSession_def Let_def sets_distinct_setEx)

text \<open>
  A read that finds no new record is no work: with every entry delivered, any number of
  turns of the loop leaves the consumer's state as it is.
\<close>

lemma processQueue_idle:
  "delivered (tasks st) = length (entries (tasks st)) \<Longrightarrow> processQueue ev n st = st"
  by (induction n) (simp_all add: processQueue_turn_def xReadGroup_def)

end
